theory Spec2Isabelle
  imports Main
begin

section \<open>JavaScript values\<close>

text \<open>
  An optional string of the source (\<open>post_id?: string\<close>) is a \<open>string option\<close>:
  \<open>None\<close> is \<open>undefined\<close>. JavaScript treats \<open>undefined\<close> and the empty string as
  false in a condition; \<open>a || b\<close> is \<open>a\<close> when \<open>a\<close> is truthy and \<open>b\<close> otherwise.
\<close>

definition truthy :: "string option \<Rightarrow> bool" where
  "truthy v = (case v of None \<Rightarrow> False | Some s \<Rightarrow> s \<noteq> [])"

definition js_or :: "string option \<Rightarrow> string option \<Rightarrow> string option" where
  "js_or a b = (if truthy a then a else b)"

definition or_default :: "string option \<Rightarrow> string \<Rightarrow> string" where
  "or_default a d = (case a of None \<Rightarrow> d | Some s \<Rightarrow> if s = [] then d else s)"

datatype error = Error string | GraphError string | TypeError string

section \<open>Data model\<close>

datatype status = NEW | OPEN | CLOSED

datatype kind = MESSENGER | FEED

text \<open>\<open>IFbUser\<close>: the \<open>from\<close> of a feed object, the \<open>sender\<close> of a messenger event.\<close>

record fb_user =
  user_id :: string
  user_name :: "string option"

text \<open>
  The loosely typed objects that flow through \<open>generatePostParams\<close>,
  \<open>generateCommentParams\<close> and \<open>handleReactions\<close> (\<open>IPostParams\<close>, \<open>ICommentParams\<close>,
  \<open>IReactionParams\<close>, the \<open>value\<close> of a feed change and the objects the Graph API
  returns) are one record with the fields the code reads. \<open>id'\<close> is the field \<open>id\<close>,
  \<open>from_user\<close> the field \<open>from\<close>, \<open>parent\<close> the id of the \<open>parent\<close> object when there is
  one, \<open>comments_total_count\<close> is \<open>comments.summary.total_count\<close> when there is a
  \<open>comments\<close> object. The code dereferences \<open>from\<close> without a check wherever it reads
  it, so the field is always there.
\<close>

record fb_object =
  id' :: "string option"
  post_id :: "string option"
  parent_id :: "string option"
  comment_id :: "string option"
  item :: "string option"
  verb :: "string option"
  parent :: "string option"
  from_user :: fb_user
  message :: "string option"
  attachment :: "string option"
  created_time :: "string option"
  photo :: "string option"
  video :: "string option"
  video_id :: "string option"
  link :: "string option"
  photo_id :: "string option"
  photos :: "string list option"
  reaction_type :: "string option"
  comments_total_count :: "int option"

text \<open>\<open>IMsgFacebook\<close>: the \<open>facebookData\<close> of a conversation message.\<close>

record msg_facebook =
  senderId :: "string option"
  senderName :: "string option"
  messageId :: "string option"
  commentId :: "string option"
  postId :: "string option"
  parentId :: "string option"
  isPost :: bool
  msg_item :: "string option"
  msg_link :: "string option"
  msg_photo :: "string option"
  msg_video :: "string option"
  msg_photos :: "string list option"
  createdTime :: "string option"
  likeCount :: "int option"
  reactions :: "string \<Rightarrow> fb_user list"
  commentCount :: "int option"

definition empty_facebookData :: msg_facebook where
  "empty_facebookData =
     \<lparr>senderId = None, senderName = None, messageId = None, commentId = None,
      postId = None, parentId = None, isPost = False, msg_item = None, msg_link = None,
      msg_photo = None, msg_video = None, msg_photos = None, createdTime = None,
      likeCount = None, reactions = (\<lambda>_. []), commentCount = None\<rparr>"

record attachment =
  att_type :: "string option"
  att_url :: "string option"

record message_doc =
  msg_id :: nat
  conversationId :: nat
  customerId :: nat
  content :: "string option"
  attachments :: "attachment list option"
  facebookData :: msg_facebook
  internal :: bool

text \<open>\<open>IFacebook\<close>: the \<open>facebookData\<close> of a conversation.\<close>

record conv_facebook =
  conv_kind :: kind
  conv_senderId :: string
  conv_senderName :: "string option"
  conv_recipientId :: "string option"
  conv_postId :: "string option"
  conv_pageId :: "string option"

record conversation =
  conv_id :: nat
  conv_integrationId :: string
  conv_customerId :: nat
  conv_status :: status
  conv_content :: "string option"
  messageCount :: "nat option"
  conv_facebookData :: conv_facebook

record customer =
  cust_id :: nat
  firstName :: "string option"
  lastName :: string
  cust_integrationId :: string
  avatar :: string
  cust_facebookId :: string

record integration_facebook =
  pageIds :: "string list"
  accountId :: string

record integration =
  integration_id :: string
  integration_facebookData :: "integration_facebook option"

section \<open>Message parameters\<close>

text \<open>\<open>generatePostParams\<close> (lines 603-635).\<close>

definition generatePostParams :: "fb_object \<Rightarrow> msg_facebook" where
  "generatePostParams postParams =
    (let doc = empty_facebookData\<lparr>postId := post_id postParams, msg_item := item postParams,
                                   isPost := True\<rparr>;
         doc = (if truthy (link postParams)
                then (if truthy (video_id postParams) then doc\<lparr>msg_video := link postParams\<rparr>
                      else if truthy (photo_id postParams) then doc\<lparr>msg_photo := link postParams\<rparr>
                      else doc\<lparr>msg_link := link postParams\<rparr>)
                else doc);
         doc = (if truthy (created_time postParams)
                then doc\<lparr>createdTime := created_time postParams\<rparr> else doc);
         doc = (case photos postParams of None \<Rightarrow> doc
                | Some ps \<Rightarrow> doc\<lparr>msg_photos := Some ps\<rparr>)
     in doc)"

text \<open>\<open>generateCommentParams\<close> (lines 640-670). The two assignments to \<open>parentId\<close> are
  two separate \<open>if\<close> statements, the second after the first.\<close>

definition generateCommentParams :: "fb_object \<Rightarrow> msg_facebook" where
  "generateCommentParams commentParams =
    (let doc = empty_facebookData\<lparr>postId := post_id commentParams,
                 msg_item := item commentParams,
                 commentId := (if truthy (id' commentParams) then id' commentParams
                               else comment_id commentParams)\<rparr>;
         doc = (case parent commentParams of None \<Rightarrow> doc
                | Some pid \<Rightarrow> doc\<lparr>parentId := Some pid\<rparr>);
         doc = (if post_id commentParams \<noteq> parent_id commentParams
                then doc\<lparr>parentId := parent_id commentParams\<rparr> else doc);
         doc = (if truthy (photo commentParams)
                then doc\<lparr>msg_photo := photo commentParams\<rparr> else doc);
         doc = (if truthy (video commentParams)
                then doc\<lparr>msg_video := video commentParams\<rparr> else doc);
         doc = (if truthy (created_time commentParams)
                then doc\<lparr>createdTime := created_time commentParams\<rparr> else doc)
     in doc)"

section \<open>Webhook payload\<close>

text \<open>A messenger event: \<open>{sender: {id, name}, recipient: {id}, message?: {mid, text?,
  attachments?: [{type, payload?: {url}}]}}\<close>. \<open>ea_payload\<close> is \<open>None\<close> when the attachment
  has no \<open>payload\<close>, and \<open>Some\<close> of its \<open>url\<close> otherwise.\<close>

record event_attachment =
  ea_type :: "string option"
  ea_payload :: "string option option"

record event_message =
  mid :: string
  msg_text :: "string option"
  ev_attachments :: "event_attachment list option"

record messaging_event =
  sender :: fb_user
  recipient_id :: string
  ev_message :: "event_message option"

text \<open>An entry of the delivery: \<open>{id, messaging?, changes?}\<close>; each element of
  \<open>changes\<close> is given by its \<open>value\<close>.\<close>

record entry =
  entry_id :: string
  messaging :: "messaging_event list option"
  changes :: "fb_object list option"

record webhook_data =
  data_object :: string
  data_entry :: "entry list"

section \<open>Selectors\<close>

text \<open>The selectors the code passes to the persistence layer are conjunctions of
  equalities on named fields; \<open>{}\<close> is the empty conjunction and matches every document.\<close>

datatype msg_cond =
    ConversationIdIs nat
  | IsPostIs bool
  | PostIdIs string
  | CommentIdIs string
  | MessageIdIs string

fun msg_cond_holds :: "message_doc \<Rightarrow> msg_cond \<Rightarrow> bool" where
  "msg_cond_holds m (ConversationIdIs c) = (conversationId m = c)"
| "msg_cond_holds m (IsPostIs b) = (isPost (facebookData m) = b)"
| "msg_cond_holds m (PostIdIs p) = (postId (facebookData m) = Some p)"
| "msg_cond_holds m (CommentIdIs c) = (commentId (facebookData m) = Some c)"
| "msg_cond_holds m (MessageIdIs i) = (messageId (facebookData m) = Some i)"

definition msg_matches :: "msg_cond list \<Rightarrow> message_doc \<Rightarrow> bool" where
  "msg_matches sel m = list_all (msg_cond_holds m) sel"

text \<open>A conversation selector: field equalities, and \<open>$or\<close> over conjunctions of them.\<close>

datatype conv_cond =
    KindIs kind
  | SenderIdIs string
  | RecipientIdIs string

datatype conv_clause =
    Cond conv_cond
  | Or "conv_cond list list"

fun conv_cond_holds :: "conversation \<Rightarrow> conv_cond \<Rightarrow> bool" where
  "conv_cond_holds c (KindIs k) = (conv_kind (conv_facebookData c) = k)"
| "conv_cond_holds c (SenderIdIs s) = (conv_senderId (conv_facebookData c) = s)"
| "conv_cond_holds c (RecipientIdIs r) = (conv_recipientId (conv_facebookData c) = Some r)"

fun conv_clause_holds :: "conversation \<Rightarrow> conv_clause \<Rightarrow> bool" where
  "conv_clause_holds c (Cond x) = conv_cond_holds c x"
| "conv_clause_holds c (Or alts) = list_ex (list_all (conv_cond_holds c)) alts"

definition conv_matches :: "conv_clause list \<Rightarrow> conversation \<Rightarrow> bool" where
  "conv_matches sel c = list_all (conv_clause_holds c) sel"

section \<open>State and effects\<close>

text \<open>\<open>getPageAccessToken\<close> returns what the Graph API sends: an object with an
  \<open>access_token\<close>, or a string (the feed path compares it with
  \<open>'Error processing https request'\<close>).\<close>

datatype token_response = TokenString string | TokenObject "string option"

definition access_token :: "token_response \<Rightarrow> string option" where
  "access_token r = (case r of TokenString _ \<Rightarrow> None | TokenObject t \<Rightarrow> t)"

record user_response =
  first_name :: "string option"
  last_name :: "string option"
  name :: "string option"

record picture_response =
  image :: bool
  location :: "string option"

text \<open>The requests sent to the Graph API, in the order they are sent.\<close>

datatype graph_call =
    PageAccessTokenCall "string option" string
  | ObjectCall "string option" "string option"
  | PostInfoCall string "string option"
  | CommentInfoCall "string option" "string option"
  | CommentsCall "string option" "string option"
  | UserCall string token_response
  | PictureCall string

text \<open>
  \<open>graphRequest\<close> and \<open>getPostInfo\<close>, \<open>getCommentInfo\<close>, \<open>getComments\<close> of
  \<open>facebookTracker\<close> are not part of the sources: the Graph API is a parameter. Each
  function takes the number of requests sent before this one, so an answer may change
  from one request to the next, and returns the rejection (\<open>Inl\<close>) or the answer.
  \<open>graph_object\<close> gives the \<open>id\<close> of the object fetched.
\<close>

record graph_api =
  graph_token :: "nat \<Rightarrow> string option \<Rightarrow> string \<Rightarrow> error + token_response"
  graph_object :: "nat \<Rightarrow> string option \<Rightarrow> string option \<Rightarrow> error + string option"
  getPostInfo :: "nat \<Rightarrow> string \<Rightarrow> string option \<Rightarrow> error + fb_object"
  getCommentInfo :: "nat \<Rightarrow> string option \<Rightarrow> string option \<Rightarrow> error + fb_object"
  getComments :: "nat \<Rightarrow> string option \<Rightarrow> string option \<Rightarrow> error + fb_object list"
  graph_user :: "nat \<Rightarrow> string \<Rightarrow> token_response \<Rightarrow> error + user_response"
  graph_picture :: "nat \<Rightarrow> string \<Rightarrow> error + picture_response"

datatype activity =
    ConversationLog nat nat
  | CustomerRegistrationLog nat

datatype notification =
    ClientMessage nat
  | SubscriptionMessage nat nat

text \<open>
  The state a delivery runs in: the collections of the persistence store (each in
  insertion order), the activity log, what was published, the requests sent to the
  Graph API, and \<open>currentPageId\<close> of the \<open>SaveWebhookResponse\<close> instance.
\<close>

record state =
  conversations :: "conversation list"
  messages :: "message_doc list"
  customers :: "customer list"
  activityLogs :: "activity list"
  published :: "notification list"
  graphCalls :: "graph_call list"
  currentPageId :: "string option"

text \<open>The fields of the instance that never change: \<open>userAccessToken\<close> and
  \<open>integration\<close>.\<close>

record instance_fields =
  userAccessToken :: string
  integration :: integration

text \<open>An asynchronous function of the source: it runs in a state and comes back with
  the exception thrown (\<open>Inl\<close>) or its result (\<open>Inr\<close>), and with the state as it left
  it. What was written before an exception stays written.\<close>

type_synonym 'a io = "state \<Rightarrow> (error + 'a) \<times> state"

definition return_io :: "'a \<Rightarrow> 'a io" where
  "return_io x = (\<lambda>s. (Inr x, s))"

definition throw_io :: "error \<Rightarrow> 'a io" where
  "throw_io e = (\<lambda>s. (Inl e, s))"

definition bind_io :: "'a io \<Rightarrow> ('a \<Rightarrow> 'b io) \<Rightarrow> 'b io" where
  "bind_io m f = (\<lambda>s. case m s of (Inl e, s') \<Rightarrow> (Inl e, s') | (Inr x, s') \<Rightarrow> f x s')"

definition graph_request :: "graph_call \<Rightarrow> (nat \<Rightarrow> error + 'a) \<Rightarrow> 'a io" where
  "graph_request c answer =
     (\<lambda>s. (answer (length (graphCalls s)), s\<lparr>graphCalls := graphCalls s @ [c]\<rparr>))"

definition fresh_id :: "nat list \<Rightarrow> nat" where
  "fresh_id ids = Suc (fold max ids 0)"

section \<open>The persistence layer and the publisher\<close>

text \<open>
  Modelled from the spec: the models \<open>Conversations\<close>, \<open>ConversationMessages\<close>,
  \<open>Customers\<close> and \<open>ActivityLogs\<close> of \<open>../db/models\<close> and the publisher
  (\<open>publishClientMessage\<close>, \<open>publishMessage\<close>) are not part of the sources. They are the
  repository of section 6 of the spec (find-one, create, update-one, update-many over
  the fields of section 3): \<open>findOne\<close> gives the first match in insertion order, and the
  most recently created match when sorted by \<open>createdAt\<close> descending; a created document
  gets an id no document of its collection has; \<open>messageCount\<close> of a conversation is the
  number of its messages; \<open>reopen\<close> sets the status to \<open>OPEN\<close> and leaves the rest.
\<close>

definition ConversationMessages_findOne :: "msg_cond list \<Rightarrow> message_doc option io" where
  "ConversationMessages_findOne sel = (\<lambda>s. (Inr (find (msg_matches sel) (messages s)), s))"

definition ConversationMessages_createMessage ::
    "nat \<Rightarrow> nat \<Rightarrow> string option \<Rightarrow> attachment list option \<Rightarrow> msg_facebook \<Rightarrow> message_doc io" where
  "ConversationMessages_createMessage convId custId cont atts fd =
     (\<lambda>s. let m = \<lparr>msg_id = fresh_id (map msg_id (messages s)), conversationId = convId,
                    customerId = custId, content = cont, attachments = atts,
                    facebookData = fd, internal = False\<rparr>;
               ms = messages s @ [m];
               n = length (filter (\<lambda>x. conversationId x = convId) ms)
           in (Inr m,
               s\<lparr>messages := ms,
                 conversations :=
                   map (\<lambda>c. if conv_id c = convId then c\<lparr>messageCount := Some n\<rparr> else c)
                     (conversations s)\<rparr>))"

definition ConversationMessages_updateMany ::
    "msg_cond list \<Rightarrow> (msg_facebook \<Rightarrow> msg_facebook) \<Rightarrow> unit io" where
  "ConversationMessages_updateMany sel upd =
     (\<lambda>s. (Inr (),
            s\<lparr>messages :=
                map (\<lambda>m. if msg_matches sel m then m\<lparr>facebookData := upd (facebookData m)\<rparr> else m)
                  (messages s)\<rparr>))"

definition Conversations_findOne_latest :: "conv_clause list \<Rightarrow> conversation option io" where
  "Conversations_findOne_latest sel =
     (\<lambda>s. (Inr (find (conv_matches sel) (rev (conversations s))), s))"

definition Conversations_createConversation ::
    "string \<Rightarrow> nat \<Rightarrow> status \<Rightarrow> string option \<Rightarrow> conv_facebook \<Rightarrow> conversation io" where
  "Conversations_createConversation integId custId st cont fd =
     (\<lambda>s. let c = \<lparr>conv_id = fresh_id (map conv_id (conversations s)),
                    conv_integrationId = integId, conv_customerId = custId, conv_status = st,
                    conv_content = cont, messageCount = Some 0, conv_facebookData = fd\<rparr>
           in (Inr c, s\<lparr>conversations := conversations s @ [c]\<rparr>))"

definition Conversations_reopen :: "nat \<Rightarrow> conversation option io" where
  "Conversations_reopen cid =
     (\<lambda>s. let cs = map (\<lambda>c. if conv_id c = cid then c\<lparr>conv_status := OPEN\<rparr> else c)
                       (conversations s)
           in (Inr (find (\<lambda>c. conv_id c = cid) cs), s\<lparr>conversations := cs\<rparr>))"

fun update_first :: "('a \<Rightarrow> bool) \<Rightarrow> ('a \<Rightarrow> 'a) \<Rightarrow> 'a list \<Rightarrow> 'a list" where
  "update_first P f [] = []"
| "update_first P f (x # xs) = (if P x then f x # xs else x # update_first P f xs)"

definition Conversations_updateOne_content :: "nat \<Rightarrow> string option \<Rightarrow> unit io" where
  "Conversations_updateOne_content cid cont =
     (\<lambda>s. (Inr (),
            s\<lparr>conversations :=
                update_first (\<lambda>c. conv_id c = cid) (\<lambda>c. c\<lparr>conv_content := cont\<rparr>)
                  (conversations s)\<rparr>))"

definition Customers_findOne :: "string \<Rightarrow> customer option io" where
  "Customers_findOne fbUserId =
     (\<lambda>s. (Inr (find (\<lambda>c. cust_facebookId c = fbUserId) (customers s)), s))"

definition Customers_createCustomer ::
    "string option \<Rightarrow> string \<Rightarrow> string \<Rightarrow> string \<Rightarrow> string \<Rightarrow> customer io" where
  "Customers_createCustomer first lst integId av fbUserId =
     (\<lambda>s. let c = \<lparr>cust_id = fresh_id (map cust_id (customers s)), firstName = first,
                    lastName = lst, cust_integrationId = integId, avatar = av,
                    cust_facebookId = fbUserId\<rparr>
           in (Inr c, s\<lparr>customers := customers s @ [c]\<rparr>))"

definition ActivityLogs_createConversationLog :: "conversation \<Rightarrow> customer \<Rightarrow> unit io" where
  "ActivityLogs_createConversationLog c cu =
     (\<lambda>s. (Inr (), s\<lparr>activityLogs := activityLogs s @ [ConversationLog (conv_id c) (cust_id cu)]\<rparr>))"

definition ActivityLogs_createCustomerRegistrationLog :: "customer \<Rightarrow> unit io" where
  "ActivityLogs_createCustomerRegistrationLog cu =
     (\<lambda>s. (Inr (), s\<lparr>activityLogs := activityLogs s @ [CustomerRegistrationLog (cust_id cu)]\<rparr>))"

definition publishClientMessage :: "message_doc \<Rightarrow> unit io" where
  "publishClientMessage m = (\<lambda>s. (Inr (), s\<lparr>published := published s @ [ClientMessage (msg_id m)]\<rparr>))"

definition publishMessage :: "message_doc \<Rightarrow> nat \<Rightarrow> unit io" where
  "publishMessage m custId =
     (\<lambda>s. (Inr (), s\<lparr>published := published s @ [SubscriptionMessage (msg_id m) custId]\<rparr>))"

text \<open>Modelled from the spec: the constant \<open>FACEBOOK_POST_TYPES\<close> of \<open>../data/constants\<close>
  is not part of the sources; section 4.4 gives the post types as status, photo, video
  and link.\<close>

definition FACEBOOK_POST_TYPES :: "string list" where
  "FACEBOOK_POST_TYPES = [''status'', ''photo'', ''video'', ''link'']"

section \<open>SaveWebhookResponse\<close>

text \<open>\<open>getPageAccessToken\<close> (lines 536-539).\<close>

definition getPageAccessToken :: "graph_api \<Rightarrow> instance_fields \<Rightarrow> token_response io" where
  "getPageAccessToken G this =
     (\<lambda>s. graph_request (PageAccessTokenCall (currentPageId s) (userAccessToken this))
            (\<lambda>n. graph_token G n (currentPageId s) (userAccessToken this)) s)"

text \<open>\<open>getProfilePic\<close> (lines 686-693): a rejected request is caught and gives \<open>null\<close>.\<close>

definition getProfilePic :: "graph_api \<Rightarrow> string \<Rightarrow> string option io" where
  "getProfilePic G fbId =
     (\<lambda>s. case graph_request (PictureCall fbId) (\<lambda>n. graph_picture G n fbId) s of
             (Inl e, s') \<Rightarrow> (Inr None, s')
           | (Inr response, s') \<Rightarrow>
               (Inr (if image response then location response else Some []), s'))"

text \<open>\<open>getOrCreateCustomer\<close> (lines 675-715).\<close>

definition getOrCreateCustomer ::
    "graph_api \<Rightarrow> string \<Rightarrow> string \<Rightarrow> token_response \<Rightarrow> customer io" where
  "getOrCreateCustomer G fbUserId integrationId token =
     bind_io (Customers_findOne fbUserId) (\<lambda>found.
       case found of
         Some cu \<Rightarrow> return_io cu
       | None \<Rightarrow>
           bind_io (graph_request (UserCall fbUserId token)
                      (\<lambda>n. graph_user G n fbUserId token)) (\<lambda>res.
           bind_io (getProfilePic G fbUserId) (\<lambda>pic.
           bind_io (Customers_createCustomer
                      (js_or (first_name res) (name res))
                      (or_default (last_name res) [])
                      integrationId
                      (or_default pic [])
                      fbUserId) (\<lambda>createdCustomer.
           bind_io (ActivityLogs_createCustomerRegistrationLog createdCustomer) (\<lambda>_.
           return_io createdCustomer)))))"

text \<open>\<open>createMessage\<close> (lines 384-427).\<close>

definition createMessage ::
    "graph_api \<Rightarrow> instance_fields \<Rightarrow> conversation option \<Rightarrow> string \<Rightarrow> string option \<Rightarrow>
     attachment list option \<Rightarrow> msg_facebook \<Rightarrow> nat io" where
  "createMessage G this conv userId cont atts fd =
     (case conv of
        None \<Rightarrow> throw_io (Error ''createMessage: Conversation not found'')
      | Some c \<Rightarrow>
          bind_io (getPageAccessToken G this) (\<lambda>token.
          bind_io (getOrCreateCustomer G userId (integration_id (integration this)) token) (\<lambda>cu.
          bind_io (ConversationMessages_createMessage (conv_id c) (cust_id cu) cont atts fd) (\<lambda>m.
          bind_io (Conversations_updateOne_content (conv_id c) cont) (\<lambda>_.
          bind_io (publishClientMessage m) (\<lambda>_.
          bind_io (publishMessage m (conv_customerId c)) (\<lambda>_.
          return_io (msg_id m))))))))"

text \<open>\<open>createMessageFromComments\<close> (lines 502-531): the loop ends at the first comment
  without an id.\<close>

fun createMessageFromComments ::
    "graph_api \<Rightarrow> instance_fields \<Rightarrow> conversation option \<Rightarrow> string \<Rightarrow> fb_object list \<Rightarrow> unit io" where
  "createMessageFromComments G this conv userId [] = return_io ()"
| "createMessageFromComments G this conv userId (comment # rest) =
     (case id' comment of
        None \<Rightarrow> return_io ()
      | Some cid \<Rightarrow>
          if cid = [] then return_io ()
          else
            (case conv of
               None \<Rightarrow> throw_io (TypeError ''Cannot read property _id of null'')
             | Some c \<Rightarrow>
                 bind_io (ConversationMessages_findOne [CommentIdIs cid, ConversationIdIs (conv_id c)])
                   (\<lambda>prevMessage.
                 bind_io (case prevMessage of
                            Some _ \<Rightarrow> return_io ()
                          | None \<Rightarrow>
                              bind_io (createMessage G this conv userId
                                         (js_or (message comment) (attachment comment)) None
                                         ((generateCommentParams (comment\<lparr>item := Some ''comment''\<rparr>))
                                            \<lparr>senderId := Some (user_id (from_user comment)),
                                             senderName := user_name (from_user comment)\<rparr>))
                                (\<lambda>_. return_io ()))
                   (\<lambda>_. createMessageFromComments G this conv userId rest))))"

text \<open>\<open>restoreParentPost\<close> (lines 429-500).\<close>

definition restoreParentPost ::
    "graph_api \<Rightarrow> instance_fields \<Rightarrow> conversation option \<Rightarrow> string \<Rightarrow> msg_facebook \<Rightarrow> bool io" where
  "restoreParentPost G this conv userId fd =
     (case postId fd of
        None \<Rightarrow> return_io False
      | Some pid \<Rightarrow>
          if pid = [] then return_io False
          else if msg_item fd \<noteq> Some ''comment'' then return_io False
          else
            (case conv of
               None \<Rightarrow> throw_io (TypeError ''Cannot read property _id of null'')
             | Some c \<Rightarrow>
                 bind_io (ConversationMessages_findOne
                            [ConversationIdIs (conv_id c), IsPostIs True, PostIdIs pid])
                   (\<lambda>parentPost.
                 case parentPost of
                   Some _ \<Rightarrow> return_io False
                 | None \<Rightarrow>
                     bind_io (getPageAccessToken G this) (\<lambda>accessTokenResponse.
                     let accessToken = access_token accessTokenResponse in
                     bind_io (graph_request (PostInfoCall pid accessToken)
                                (\<lambda>n. getPostInfo G n pid accessToken)) (\<lambda>postResponse.
                     let postParams =
                           generatePostParams
                             (postResponse\<lparr>item := Some ''status'', post_id := id' postResponse\<rparr>)
                     in
                     bind_io (createMessage G this conv userId
                                (Some (or_default (message postResponse) ''...'')) None
                                (postParams
                                   \<lparr>senderId := Some (user_id (from_user postResponse)),
                                    senderName := user_name (from_user postResponse),
                                    commentCount :=
                                      (case comments_total_count postResponse of
                                         Some n \<Rightarrow> Some n | None \<Rightarrow> Some 0)\<rparr>)) (\<lambda>_.
                     bind_io (graph_request (CommentInfoCall (commentId fd) accessToken)
                                (\<lambda>n. getCommentInfo G n (commentId fd) accessToken))
                       (\<lambda>commentResponse.
                     case parent commentResponse of
                       None \<Rightarrow> return_io True
                     | Some parentCommentId \<Rightarrow>
                         bind_io (graph_request (CommentInfoCall (Some parentCommentId) accessToken)
                                    (\<lambda>n. getCommentInfo G n (Some parentCommentId) accessToken))
                           (\<lambda>parentCommentResponse.
                         bind_io (graph_request
                                    (CommentsCall (id' parentCommentResponse) accessToken)
                                    (\<lambda>n. getComments G n (id' parentCommentResponse) accessToken))
                           (\<lambda>parentCommentComments.
                         bind_io (createMessageFromComments G this conv userId
                                    (parentCommentComments @ [parentCommentResponse])) (\<lambda>_.
                         return_io True))))))))))"

text \<open>\<open>IGetOrCreateConversationParams\<close>; the \<open>facebookData\<close> comes without \<open>pageId\<close>,
  which \<open>getOrCreateConversation\<close> stamps.\<close>

record conversation_params =
  findSelector :: "conv_clause list option"
  p_status :: status
  p_senderId :: string
  p_facebookData :: conv_facebook
  p_content :: string
  p_attachments :: "attachment list option"
  msgFacebookData :: msg_facebook

text \<open>The first half of \<open>getOrCreateConversation\<close> (lines 317-362): the value of the
  variable \<open>conversation\<close> when \<open>restoreParentPost\<close> is called.\<close>

definition getOrCreateConversation_conversation ::
    "graph_api \<Rightarrow> instance_fields \<Rightarrow> conversation_params \<Rightarrow> conversation option io" where
  "getOrCreateConversation_conversation G this params =
     bind_io (case findSelector params of
                None \<Rightarrow> return_io None
              | Some sel \<Rightarrow> Conversations_findOne_latest sel) (\<lambda>found.
     if (case found of
           None \<Rightarrow> True
         | Some c \<Rightarrow>
             (case messageCount c of
                None \<Rightarrow> False
              | Some n \<Rightarrow> n \<noteq> 0 \<and> (n > 1 \<and> conv_status c = CLOSED)))
     then
       bind_io (getPageAccessToken G this) (\<lambda>token.
       bind_io (getOrCreateCustomer G (p_senderId params) (integration_id (integration this)) token)
         (\<lambda>cu.
       bind_io (\<lambda>s. (Inr (currentPageId s), s)) (\<lambda>pageId.
       if \<not> truthy pageId
       then throw_io (Error ''getOrCreateConversation: Couldn't set current page id'')
       else
         bind_io (Conversations_createConversation (integration_id (integration this))
                    (cust_id cu) (p_status params) (Some (p_content params))
                    ((p_facebookData params)\<lparr>conv_pageId := pageId\<rparr>)) (\<lambda>c.
         bind_io (ActivityLogs_createConversationLog c cu) (\<lambda>_.
         return_io (Some c))))))
     else
       (case found of
          None \<Rightarrow> return_io None
        | Some c \<Rightarrow> Conversations_reopen (conv_id c)))"

text \<open>\<open>getOrCreateConversation\<close> (lines 313-379).\<close>

definition getOrCreateConversation ::
    "graph_api \<Rightarrow> instance_fields \<Rightarrow> conversation_params \<Rightarrow> nat io" where
  "getOrCreateConversation G this params =
     bind_io (getOrCreateConversation_conversation G this params) (\<lambda>conv.
     bind_io (restoreParentPost G this conv (p_senderId params) (msgFacebookData params)) (\<lambda>_.
     createMessage G this conv (p_senderId params) (Some (p_content params))
       (p_attachments params) (msgFacebookData params)))"

text \<open>\<open>updateLikeCount\<close> (lines 544-554): \<open>$inc\<close> of \<open>facebookData.likeCount\<close>.\<close>

definition updateLikeCount :: "string option \<Rightarrow> msg_cond list \<Rightarrow> unit io" where
  "updateLikeCount type selector =
     (let count = (if type = Some ''add'' then 1 else - 1) in
      ConversationMessages_updateMany selector
        (\<lambda>fd. fd\<lparr>likeCount := Some ((case likeCount fd of None \<Rightarrow> 0 | Some n \<Rightarrow> n) + count)\<rparr>))"

text \<open>\<open>updateReactions\<close> (lines 559-571): \<open>$push\<close> appends the actor to the list at
  \<open>facebookData.reactions.<reactionType>\<close>; \<open>$pull\<close> with \<open>{id: from.id}\<close> removes from
  that list every element whose \<open>id\<close> is the actor's.\<close>

definition updateReactions ::
    "string option \<Rightarrow> msg_cond list \<Rightarrow> string \<Rightarrow> fb_user \<Rightarrow> unit io" where
  "updateReactions type selector reactionType actor =
     (if type = Some ''add''
      then ConversationMessages_updateMany selector
             (\<lambda>fd. fd\<lparr>reactions := (reactions fd)(reactionType := reactions fd reactionType @ [actor])\<rparr>)
      else ConversationMessages_updateMany selector
             (\<lambda>fd. fd\<lparr>reactions :=
                      (reactions fd)(reactionType :=
                         filter (\<lambda>u. user_id u \<noteq> user_id actor) (reactions fd reactionType))\<rparr>))"

text \<open>The selector of \<open>handleReactions\<close> (lines 578-586).\<close>

definition reaction_selector :: "fb_object \<Rightarrow> msg_cond list" where
  "reaction_selector reactionParams =
     (let selector = [];
          selector = (case post_id reactionParams of
                        None \<Rightarrow> selector
                      | Some p \<Rightarrow> if p = [] then selector else [PostIdIs p]);
          selector = (case comment_id reactionParams of
                        None \<Rightarrow> selector
                      | Some c \<Rightarrow> if c = [] then selector else [CommentIdIs c])
      in selector)"

text \<open>\<open>handleReactions\<close> (lines 576-597).\<close>

definition handleReactions :: "fb_object \<Rightarrow> unit io" where
  "handleReactions reactionParams =
     (let selector = reaction_selector reactionParams in
      bind_io (if item reactionParams = Some ''like''
               then updateLikeCount (verb reactionParams) selector
               else return_io ()) (\<lambda>_.
      if item reactionParams = Some ''reaction''
      then updateReactions (verb reactionParams) selector
             (or_default (reaction_type reactionParams) ''like'') (from_user reactionParams)
      else return_io ()))"

text \<open>\<open>getOrCreateConversationByFeed\<close> (lines 161-250).\<close>

definition getOrCreateConversationByFeed ::
    "graph_api \<Rightarrow> instance_fields \<Rightarrow> fb_object \<Rightarrow> unit io" where
  "getOrCreateConversationByFeed G this v =
     (case integration_facebookData (integration this) of
        None \<Rightarrow>
          throw_io (Error ''getOrCreateConversationByFeed: Integration doesnt have facebookData'')
      | Some integrationFacebookData \<Rightarrow>
          if verb v \<noteq> Some ''add'' then return_io ()
          else
            bind_io (if item v = Some ''comment'' \<and> truthy (comment_id v)
                     then bind_io (ConversationMessages_findOne
                                     [CommentIdIs (case comment_id v of Some c \<Rightarrow> c | None \<Rightarrow> [])])
                            (\<lambda>conversationMessage.
                              case conversationMessage of
                                Some _ \<Rightarrow> return_io None
                              | None \<Rightarrow> return_io (Some (generateCommentParams v)))
                     else return_io (Some empty_facebookData)) (\<lambda>afterComment.
            case afterComment of
              None \<Rightarrow> return_io ()
            | Some fd0 \<Rightarrow>
                let msgFbData =
                      (if (case item v of None \<Rightarrow> False | Some i \<Rightarrow> i \<in> set FACEBOOK_POST_TYPES)
                       then generatePostParams v else fd0)
                in
                if item v = Some ''like'' \<or> item v = Some ''reaction''
                then handleReactions v
                else
                  let sName = user_name (from_user v);
                      sId = user_id (from_user v);
                      messageText = or_default (message v) ''...''
                  in
                  bind_io (getPageAccessToken G this) (\<lambda>response.
                  if response = TokenString ''Error processing https request''
                  then throw_io
                         (Error ''getOrCreateConversationByFeed: Couldn't get Page access token'')
                  else
                    bind_io (graph_request (ObjectCall (post_id v) (access_token response))
                               (\<lambda>n. graph_object G n (post_id v) (access_token response)))
                      (\<lambda>pId.
                    let status = (if sId \<in> set (pageIds integrationFacebookData)
                                  then CLOSED else NEW)
                    in
                    bind_io (getOrCreateConversation G this
                               \<lparr>findSelector = None, p_status = status, p_senderId = sId,
                                p_facebookData =
                                  \<lparr>conv_kind = FEED, conv_senderId = sId,
                                   conv_senderName = sName, conv_recipientId = None,
                                   conv_postId = pId, conv_pageId = None\<rparr>,
                                p_content = messageText, p_attachments = None,
                                msgFacebookData =
                                  msgFbData\<lparr>senderId := Some sId,
                                            senderName := sName\<rparr>\<rparr>) (\<lambda>_.
                    return_io ())))))"

text \<open>The selector of \<open>getOrCreateConversationByMessenger\<close> (lines 279-291).\<close>

definition messenger_selector :: "string \<Rightarrow> string \<Rightarrow> conv_clause list" where
  "messenger_selector sId rId =
     [Cond (KindIs MESSENGER),
      Or [[SenderIdIs sId, RecipientIdIs rId],
          [SenderIdIs rId, RecipientIdIs sId]]]"

text \<open>\<open>getOrCreateConversationByMessenger\<close> (lines 255-308).\<close>

definition getOrCreateConversationByMessenger ::
    "graph_api \<Rightarrow> instance_fields \<Rightarrow> messaging_event \<Rightarrow> unit io" where
  "getOrCreateConversationByMessenger G this event =
     (case ev_message event of
        None \<Rightarrow> throw_io (TypeError ''Cannot read property mid of undefined'')
      | Some msg \<Rightarrow>
          let sId = user_id (sender event);
              sName = user_name (sender event);
              rId = recipient_id event;
              mId = mid msg;
              messageText = or_default (msg_text msg) ''...'';
              atts = map (\<lambda>a. \<lparr>att_type = ea_type a,
                                 att_url = (case ea_payload a of None \<Rightarrow> Some [] | Some u \<Rightarrow> u)\<rparr>)
                       (case ev_attachments msg of None \<Rightarrow> [] | Some xs \<Rightarrow> xs)
          in
          bind_io (ConversationMessages_findOne [MessageIdIs mId]) (\<lambda>saved.
          case saved of
            Some _ \<Rightarrow> return_io ()
          | None \<Rightarrow>
              bind_io (getOrCreateConversation G this
                         \<lparr>findSelector = Some (messenger_selector sId rId),
                          p_status = NEW, p_senderId = sId,
                          p_facebookData =
                            \<lparr>conv_kind = MESSENGER, conv_senderId = sId,
                             conv_senderName = sName, conv_recipientId = Some rId,
                             conv_postId = None, conv_pageId = None\<rparr>,
                          p_content = messageText, p_attachments = Some atts,
                          msgFacebookData = empty_facebookData\<lparr>messageId := Some mId\<rparr>\<rparr>)
                (\<lambda>_. return_io ())))"

text \<open>\<open>viaMessengerEvent\<close> (lines 138-145) and \<open>viaFeedEvent\<close> (lines 150-155), on the
  array of the entry.\<close>

fun viaMessengerEvent :: "graph_api \<Rightarrow> instance_fields \<Rightarrow> messaging_event list \<Rightarrow> unit io" where
  "viaMessengerEvent G this [] = return_io ()"
| "viaMessengerEvent G this (messagingEvent # rest) =
     bind_io (case ev_message messagingEvent of
                None \<Rightarrow> return_io ()
              | Some _ \<Rightarrow> getOrCreateConversationByMessenger G this messagingEvent) (\<lambda>_.
     viaMessengerEvent G this rest)"

fun viaFeedEvent :: "graph_api \<Rightarrow> instance_fields \<Rightarrow> fb_object list \<Rightarrow> unit io" where
  "viaFeedEvent G this [] = return_io ()"
| "viaFeedEvent G this (v # rest) =
     bind_io (getOrCreateConversationByFeed G this v) (\<lambda>_. viaFeedEvent G this rest)"

text \<open>The loop of \<open>start\<close> (lines 114-131): \<open>return null\<close> at an entry whose id is not
  among the page ids leaves the function.\<close>

fun start_entries ::
    "graph_api \<Rightarrow> instance_fields \<Rightarrow> integration_facebook \<Rightarrow> entry list \<Rightarrow> unit io" where
  "start_entries G this integrationFacebookData [] = return_io ()"
| "start_entries G this integrationFacebookData (e # rest) =
     (if entry_id e \<notin> set (pageIds integrationFacebookData) then return_io ()
      else
        bind_io (\<lambda>s. (Inr (), s\<lparr>currentPageId := Some (entry_id e)\<rparr>)) (\<lambda>_.
        bind_io (case messaging e of
                   None \<Rightarrow> return_io ()
                 | Some evs \<Rightarrow> viaMessengerEvent G this evs) (\<lambda>_.
        bind_io (case changes e of
                   None \<Rightarrow> return_io ()
                 | Some vs \<Rightarrow> viaFeedEvent G this vs) (\<lambda>_.
        start_entries G this integrationFacebookData rest))))"

text \<open>\<open>start\<close> (lines 105-133).\<close>

definition start :: "graph_api \<Rightarrow> instance_fields \<Rightarrow> webhook_data \<Rightarrow> unit io" where
  "start G this d =
     (case integration_facebookData (integration this) of
        None \<Rightarrow> throw_io (Error ''start: Integration doesn't have facebookData'')
      | Some integrationFacebookData \<Rightarrow>
          if data_object d = ''page''
          then start_entries G this integrationFacebookData (data_entry d)
          else return_io ())"

section \<open>Notions used in the proofs\<close>

text \<open>A projection of the state that a computation leaves as it was, whatever the
  result.\<close>

definition unchanged :: "(state \<Rightarrow> 'b) \<Rightarrow> 'a io \<Rightarrow> bool" where
  "unchanged proj m = (\<forall>s. proj (snd (m s)) = proj s)"

text \<open>A computation that only adds messages at the end of the collection.\<close>

definition appends :: "'a io \<Rightarrow> bool" where
  "appends m = (\<forall>s. \<exists>ys. messages (snd (m s)) = messages s @ ys)"

text \<open>The id, status and \<open>facebookData\<close> of the conversations, in order.\<close>

definition conv_keys :: "state \<Rightarrow> (nat \<times> status \<times> conv_facebook) list" where
  "conv_keys s = map (\<lambda>c. (conv_id c, conv_status c, conv_facebookData c)) (conversations s)"

text \<open>The condition under which a matched conversation is not reopened (lines 332-333):
  more than one message, and closed.\<close>

definition starts_new :: "conversation \<Rightarrow> bool" where
  "starts_new c = ((\<exists>n. messageCount c = Some n \<and> 1 < n) \<and> conv_status c = CLOSED)"

text \<open>The number of messages of a conversation that carry a given comment id.\<close>

definition recorded :: "nat \<Rightarrow> string \<Rightarrow> state \<Rightarrow> nat" where
  "recorded cv k s =
     length (filter (\<lambda>m. commentId (facebookData m) = Some k \<and> conversationId m = cv) (messages s))"

text \<open>The argument \<open>getOrCreateConversationByMessenger\<close> passes to
  \<open>getOrCreateConversation\<close> (lines 277-307), and the one
  \<open>getOrCreateConversationByFeed\<close> passes (lines 232-249) for the message data \<open>fd\<close> and
  the post id \<open>pId\<close> the Graph API gave.\<close>

definition messenger_params :: "messaging_event \<Rightarrow> event_message \<Rightarrow> conversation_params" where
  "messenger_params event msg =
     \<lparr>findSelector = Some (messenger_selector (user_id (sender event)) (recipient_id event)),
      p_status = NEW, p_senderId = user_id (sender event),
      p_facebookData =
        \<lparr>conv_kind = MESSENGER, conv_senderId = user_id (sender event),
         conv_senderName = user_name (sender event),
         conv_recipientId = Some (recipient_id event),
         conv_postId = None, conv_pageId = None\<rparr>,
      p_content = or_default (msg_text msg) ''...'',
      p_attachments =
        Some (map (\<lambda>a. \<lparr>att_type = ea_type a,
                          att_url = (case ea_payload a of None \<Rightarrow> Some [] | Some u \<Rightarrow> u)\<rparr>)
                (case ev_attachments msg of None \<Rightarrow> [] | Some xs \<Rightarrow> xs)),
      msgFacebookData = empty_facebookData\<lparr>messageId := Some (mid msg)\<rparr>\<rparr>"

definition feed_params ::
    "integration_facebook \<Rightarrow> fb_object \<Rightarrow> msg_facebook \<Rightarrow> string option \<Rightarrow> conversation_params" where
  "feed_params ifd v fd pId =
     \<lparr>findSelector = None,
      p_status = (if user_id (from_user v) \<in> set (pageIds ifd) then CLOSED else NEW),
      p_senderId = user_id (from_user v),
      p_facebookData =
        \<lparr>conv_kind = FEED, conv_senderId = user_id (from_user v),
         conv_senderName = user_name (from_user v), conv_recipientId = None,
         conv_postId = pId, conv_pageId = None\<rparr>,
      p_content = or_default (message v) ''...'', p_attachments = None,
      msgFacebookData = fd\<lparr>senderId := Some (user_id (from_user v)),
                           senderName := user_name (from_user v)\<rparr>\<rparr>"

section \<open>Example data\<close>

text \<open>The concrete deliveries, stores and Graph API answers the theorems below are
  evaluated on.\<close>

definition blank_object :: fb_object where
  "blank_object =
     \<lparr>id' = None, post_id = None, parent_id = None, comment_id = None, item = None,
      verb = None, parent = None, from_user = \<lparr>user_id = ''100'', user_name = Some ''Ann''\<rparr>,
      message = None, attachment = None, created_time = None, photo = None, video = None,
      video_id = None, link = None, photo_id = None, photos = None, reaction_type = None,
      comments_total_count = None\<rparr>"

definition empty_state :: state where
  "empty_state = \<lparr>conversations = [], messages = [], customers = [], activityLogs = [],
      published = [], graphCalls = [], currentPageId = None\<rparr>"

text \<open>An integration that owns the page \<open>p1\<close>.\<close>

definition ex_this :: instance_fields where
  "ex_this = \<lparr>userAccessToken = ''user-token'',
      integration = \<lparr>integration_id = ''i1'',
        integration_facebookData = Some \<lparr>pageIds = [''p1''], accountId = ''a1''\<rparr>\<rparr>\<rparr>"

text \<open>A Graph API that answers every request: the post asked for comes back under the
  id \<open>g1\<close>, the comment \<open>c2\<close> is a reply to the comment \<open>c1\<close>, and \<open>c2\<close> is the one
  comment under \<open>c1\<close>; a user has a \<open>name\<close> only; there is no picture.\<close>

definition ex_graph :: graph_api where
  "ex_graph =
     \<lparr>graph_token = (\<lambda>_ _ _. Inr (TokenObject (Some ''page-token''))),
      graph_object = (\<lambda>_ p _. Inr p),
      getPostInfo = (\<lambda>_ p _. Inr (blank_object\<lparr>id' := Some ''g1'', message := Some ''the post''\<rparr>)),
      getCommentInfo =
        (\<lambda>_ c _. Inr (if c = Some ''c2''
                       then blank_object\<lparr>id' := Some ''c2'', parent := Some ''c1'',
                              message := Some ''reply''\<rparr>
                       else blank_object\<lparr>id' := Some ''c1'', message := Some ''first''\<rparr>)),
      getComments =
        (\<lambda>_ c _. Inr [blank_object\<lparr>id' := Some ''c2'', parent := Some ''c1'',
                          message := Some ''reply''\<rparr>]),
      graph_user =
        (\<lambda>_ _ _. Inr \<lparr>first_name = None, last_name = None, name = Some ''John Smith''\<rparr>),
      graph_picture = (\<lambda>_ _. Inl (GraphError ''no picture''))\<rparr>"

definition ex_event :: messaging_event where
  "ex_event = \<lparr>sender = \<lparr>user_id = ''100'', user_name = Some ''Ann''\<rparr>, recipient_id = ''p1'',
      ev_message = Some \<lparr>mid = ''m1'', msg_text = Some ''hi'', ev_attachments = None\<rparr>\<rparr>"

definition ex_owned_entry :: entry where
  "ex_owned_entry = \<lparr>entry_id = ''p1'', messaging = Some [ex_event], changes = None\<rparr>"

definition ex_foreign_entry :: entry where
  "ex_foreign_entry = \<lparr>entry_id = ''p2'', messaging = None, changes = None\<rparr>"

definition ex_message :: "nat \<Rightarrow> msg_facebook \<Rightarrow> message_doc" where
  "ex_message i fd = \<lparr>msg_id = i, conversationId = 1, customerId = 1, content = Some ''...'',
      attachments = None, facebookData = fd, internal = False\<rparr>"

text \<open>A like that carries both a \<open>post_id\<close> and a \<open>comment_id\<close>.\<close>

definition ex_like :: fb_object where
  "ex_like = blank_object\<lparr>item := Some ''like'', verb := Some ''add'', post_id := Some ''p1'',
      comment_id := Some ''c1''\<rparr>"

text \<open>A store with the post \<open>p1\<close> and its comment \<open>c1\<close>; user \<open>100\<close> stands twice in the
  \<open>love\<close> reactions of the comment.\<close>

definition ex_store :: state where
  "ex_store = empty_state\<lparr>messages :=
      [ex_message 1 (empty_facebookData\<lparr>postId := Some ''p1'', isPost := True\<rparr>),
       ex_message 2 (empty_facebookData\<lparr>postId := Some ''p1'', commentId := Some ''c1'',
          reactions := (\<lambda>_. [])(''love'' :=
            [\<lparr>user_id = ''100'', user_name = Some ''Ann''\<rparr>,
             \<lparr>user_id = ''200'', user_name = Some ''Bob''\<rparr>,
             \<lparr>user_id = ''100'', user_name = Some ''Ann''\<rparr>])\<rparr>)]\<rparr>"

text \<open>A delivery is processed with the page \<open>p1\<close> as the current page.\<close>

definition ex_page_state :: state where
  "ex_page_state = empty_state\<lparr>currentPageId := Some ''p1''\<rparr>"

text \<open>The comment \<open>c2\<close> on the post \<open>w1\<close>, a reply to the comment \<open>c1\<close>.\<close>

definition ex_reply :: fb_object where
  "ex_reply = blank_object\<lparr>item := Some ''comment'', verb := Some ''add'',
      comment_id := Some ''c2'', post_id := Some ''w1'', parent_id := Some ''c1'',
      message := Some ''reply''\<rparr>"

text \<open>The answer of the page to \<open>ex_event\<close>: sender and recipient swapped.\<close>

definition ex_echo :: messaging_event where
  "ex_echo = \<lparr>sender = \<lparr>user_id = ''p1'', user_name = Some ''Page''\<rparr>, recipient_id = ''100'',
      ev_message = Some \<lparr>mid = ''m2'', msg_text = Some ''hello'', ev_attachments = None\<rparr>\<rparr>"

text \<open>A store whose one conversation, between user \<open>100\<close> and page \<open>p1\<close>, is closed and
  has the given messages.\<close>

definition ex_closed :: "message_doc list \<Rightarrow> state" where
  "ex_closed ms = ex_page_state
     \<lparr>conversations :=
        [\<lparr>conv_id = 1, conv_integrationId = ''i1'', conv_customerId = 1, conv_status = CLOSED,
          conv_content = Some ''hi'', messageCount = Some (length ms),
          conv_facebookData =
            \<lparr>conv_kind = MESSENGER, conv_senderId = ''100'', conv_senderName = Some ''Ann'',
             conv_recipientId = Some ''p1'', conv_postId = None, conv_pageId = Some ''p1''\<rparr>\<rparr>],
      messages := ms,
      customers :=
        [\<lparr>cust_id = 1, firstName = Some ''Ann'', lastName = [], cust_integrationId = ''i1'',
          avatar = [], cust_facebookId = ''100''\<rparr>]\<rparr>"

definition ex_params :: conversation_params where
  "ex_params = messenger_params ex_event
     \<lparr>mid = ''m1'', msg_text = Some ''hi'', ev_attachments = None\<rparr>"

definition ex_after_message :: state where
  "ex_after_message =
     snd (getOrCreateConversationByMessenger ex_graph ex_this ex_event ex_page_state)"

definition ex_after_echo :: state where
  "ex_after_echo =
     snd (getOrCreateConversationByMessenger ex_graph ex_this ex_echo ex_after_message)"

definition ex_after_reply :: state where
  "ex_after_reply = snd (getOrCreateConversationByFeed ex_graph ex_this ex_reply ex_page_state)"

text \<open>A feed conversation without messages, and the \<open>facebookData\<close> of a comment \<open>c1\<close>
  on the post the webhook names \<open>w1\<close>.\<close>

definition ex_feed_conversation :: conversation where
  "ex_feed_conversation =
     \<lparr>conv_id = 1, conv_integrationId = ''i1'', conv_customerId = 1, conv_status = NEW,
      conv_content = Some ''first'', messageCount = Some 0,
      conv_facebookData =
        \<lparr>conv_kind = FEED, conv_senderId = ''100'', conv_senderName = Some ''Ann'',
         conv_recipientId = None, conv_postId = Some ''g1'', conv_pageId = Some ''p1''\<rparr>\<rparr>"

definition ex_thread :: state where
  "ex_thread = ex_page_state
     \<lparr>conversations := [ex_feed_conversation],
      customers :=
        [\<lparr>cust_id = 1, firstName = Some ''Ann'', lastName = [], cust_integrationId = ''i1'',
          avatar = [], cust_facebookId = ''100''\<rparr>]\<rparr>"

definition ex_comment_data :: msg_facebook where
  "ex_comment_data = empty_facebookData\<lparr>msg_item := Some ''comment'', postId := Some ''w1'',
      commentId := Some ''c1''\<rparr>"

section \<open>Evaluation and frame lemmas\<close>

lemmas run_defs = return_io_def throw_io_def bind_io_def graph_request_def
  ConversationMessages_findOne_def ConversationMessages_createMessage_def
  ConversationMessages_updateMany_def Conversations_findOne_latest_def
  Conversations_createConversation_def Conversations_reopen_def
  Conversations_updateOne_content_def Customers_findOne_def Customers_createCustomer_def
  ActivityLogs_createConversationLog_def ActivityLogs_createCustomerRegistrationLog_def
  publishClientMessage_def publishMessage_def getPageAccessToken_def getProfilePic_def
  getOrCreateCustomer_def createMessage_def restoreParentPost_def
  getOrCreateConversation_conversation_def getOrCreateConversation_def
  getOrCreateConversationByFeed_def getOrCreateConversationByMessenger_def start_def
  fresh_id_def truthy_def js_or_def or_default_def access_token_def
  generateCommentParams_def generatePostParams_def empty_facebookData_def msg_matches_def
  conv_matches_def messenger_selector_def FACEBOOK_POST_TYPES_def Let_def

lemmas ex_defs = blank_object_def empty_state_def ex_this_def ex_graph_def ex_event_def
  ex_owned_entry_def ex_foreign_entry_def ex_message_def ex_like_def ex_store_def

lemma msg_matches_reactions_upd:
  "msg_matches sel (m\<lparr>facebookData := (facebookData m)\<lparr>reactions := r\<rparr>\<rparr>) = msg_matches sel m"
proof -
  have "msg_cond_holds (m\<lparr>facebookData := (facebookData m)\<lparr>reactions := r\<rparr>\<rparr>) c
          = msg_cond_holds m c" for c
    by (cases c) simp_all
  then have "msg_cond_holds (m\<lparr>facebookData := (facebookData m)\<lparr>reactions := r\<rparr>\<rparr>)
          = msg_cond_holds m"
    by (rule ext)
  then show ?thesis by (simp add: msg_matches_def)
qed

lemmas ex2_defs = ex_page_state_def ex_reply_def ex_echo_def ex_closed_def ex_thread_def
  ex_feed_conversation_def
  ex_comment_data_def ex_params_def messenger_params_def ex_after_message_def
  ex_after_echo_def ex_after_reply_def

lemma run_result: "fst x = Inr r \<Longrightarrow> x = (Inr r, snd x)"
  by (simp add: prod_eq_iff)

subsection \<open>Frames\<close>

lemma unchangedD: "unchanged proj m \<Longrightarrow> m s = (r, s') \<Longrightarrow> proj s' = proj s"
  by (auto simp: unchanged_def dest: spec [where x = s])

lemma appendsD: "appends m \<Longrightarrow> m s = (r, s') \<Longrightarrow> \<exists>ys. messages s' = messages s @ ys"
  by (auto simp: appends_def dest: spec [where x = s])

lemma unchanged_return: "unchanged proj (return_io x)"
  by (simp add: unchanged_def return_io_def)

lemma unchanged_throw: "unchanged proj (throw_io e)"
  by (simp add: unchanged_def throw_io_def)

lemma unchanged_bind:
  assumes "unchanged proj m" and "\<And>x. unchanged proj (f x)"
  shows "unchanged proj (bind_io m f)"
proof -
  have "proj (snd (bind_io m f s)) = proj s" for s
  proof (cases "m s")
    case (Pair r s')
    have s': "proj s' = proj s" by (rule unchangedD [OF assms(1) Pair])
    show ?thesis
    proof (cases r)
      case (Inl e)
      with Pair s' show ?thesis by (simp add: bind_io_def)
    next
      case (Inr x)
      from assms(2) [of x] have "proj (snd (f x s')) = proj s'" by (simp add: unchanged_def)
      with Pair Inr s' show ?thesis by (simp add: bind_io_def)
    qed
  qed
  then show ?thesis by (simp add: unchanged_def)
qed

lemma unchanged_case_option:
  "unchanged proj a \<Longrightarrow> (\<And>y. unchanged proj (b y)) \<Longrightarrow>
   unchanged proj (case x of None \<Rightarrow> a | Some y \<Rightarrow> b y)"
  by (cases x) simp_all

lemma unchanged_if:
  "unchanged proj a \<Longrightarrow> unchanged proj b \<Longrightarrow> unchanged proj (if c then a else b)"
  by simp

lemmas unchanged_intros = unchanged_bind unchanged_case_option unchanged_if
  unchanged_return unchanged_throw

lemma appends_unchanged: "unchanged messages m \<Longrightarrow> appends m"
  by (simp add: unchanged_def appends_def)

lemma appends_return: "appends (return_io x)"
  by (simp add: appends_def return_io_def)

lemma appends_throw: "appends (throw_io e)"
  by (simp add: appends_def throw_io_def)

lemma appends_bind:
  assumes "appends m" and "\<And>x. appends (f x)"
  shows "appends (bind_io m f)"
proof -
  have "\<exists>ys. messages (snd (bind_io m f s)) = messages s @ ys" for s
  proof (cases "m s")
    case (Pair r s')
    from appendsD [OF assms(1) Pair] obtain ys where s': "messages s' = messages s @ ys" ..
    show ?thesis
    proof (cases r)
      case (Inl e)
      with Pair s' show ?thesis by (simp add: bind_io_def)
    next
      case (Inr x)
      from assms(2) [of x] obtain zs where "messages (snd (f x s')) = messages s' @ zs"
        by (auto simp: appends_def)
      with Pair Inr s' show ?thesis by (simp add: bind_io_def)
    qed
  qed
  then show ?thesis by (simp add: appends_def)
qed

lemma appends_case_option:
  "appends a \<Longrightarrow> (\<And>y. appends (b y)) \<Longrightarrow> appends (case x of None \<Rightarrow> a | Some y \<Rightarrow> b y)"
  by (cases x) simp_all

lemma appends_if: "appends a \<Longrightarrow> appends b \<Longrightarrow> appends (if c then a else b)"
  by simp

lemmas appends_intros = appends_bind appends_case_option appends_if appends_return
  appends_throw

lemma bind_io_Inr:
  assumes "bind_io m f s = (Inr y, s'')"
  obtains x s' where "m s = (Inr x, s')" and "f x s' = (Inr y, s'')"
  using assms by (auto simp: bind_io_def split: prod.splits sum.splits)

lemmas prim_defs = Customers_findOne_def Customers_createCustomer_def
  ActivityLogs_createCustomerRegistrationLog_def ActivityLogs_createConversationLog_def
  Conversations_findOne_latest_def Conversations_createConversation_def
  Conversations_reopen_def Conversations_updateOne_content_def
  ConversationMessages_findOne_def ConversationMessages_createMessage_def
  ConversationMessages_updateMany_def publishClientMessage_def publishMessage_def
  graph_request_def return_io_def throw_io_def

text \<open>What does not touch the messages.\<close>

lemma messages_getPageAccessToken: "unchanged messages (getPageAccessToken G this)"
  by (simp add: unchanged_def getPageAccessToken_def graph_request_def)

lemma messages_getProfilePic: "unchanged messages (getProfilePic G u)"
  by (simp add: unchanged_def getProfilePic_def graph_request_def split: sum.splits)

lemma messages_getOrCreateCustomer: "unchanged messages (getOrCreateCustomer G u i t)"
  unfolding getOrCreateCustomer_def
  by (intro unchanged_intros messages_getProfilePic)
     (simp_all add: unchanged_def prim_defs Let_def)

lemma messages_conversation:
  "unchanged messages (getOrCreateConversation_conversation G this params)"
  unfolding getOrCreateConversation_conversation_def
  by (intro unchanged_intros messages_getPageAccessToken messages_getOrCreateCustomer)
     (simp_all add: unchanged_def prim_defs Let_def)

text \<open>What does not touch the conversations.\<close>

lemma conversations_getPageAccessToken: "unchanged conversations (getPageAccessToken G this)"
  by (simp add: unchanged_def getPageAccessToken_def graph_request_def)

lemma conversations_getProfilePic: "unchanged conversations (getProfilePic G u)"
  by (simp add: unchanged_def getProfilePic_def graph_request_def split: sum.splits)

lemma conversations_getOrCreateCustomer: "unchanged conversations (getOrCreateCustomer G u i t)"
  unfolding getOrCreateCustomer_def
  by (intro unchanged_intros conversations_getProfilePic)
     (simp_all add: unchanged_def prim_defs Let_def)

lemma currentPageId_getPageAccessToken: "unchanged currentPageId (getPageAccessToken G this)"
  by (simp add: unchanged_def getPageAccessToken_def graph_request_def)

lemma currentPageId_getProfilePic: "unchanged currentPageId (getProfilePic G u)"
  by (simp add: unchanged_def getProfilePic_def graph_request_def split: sum.splits)

lemma currentPageId_getOrCreateCustomer: "unchanged currentPageId (getOrCreateCustomer G u i t)"
  unfolding getOrCreateCustomer_def
  by (intro unchanged_intros currentPageId_getProfilePic)
     (simp_all add: unchanged_def prim_defs Let_def)

text \<open>\<open>createMessage\<close> step by step.\<close>

lemma createMessage_steps:
  assumes "createMessage G this (Some c) u cont atts fd s = (Inr i, s')"
  obtains t s1 cu s2 m s3 s4 s5 where
    "getPageAccessToken G this s = (Inr t, s1)"
    "getOrCreateCustomer G u (integration_id (integration this)) t s1 = (Inr cu, s2)"
    "ConversationMessages_createMessage (conv_id c) (cust_id cu) cont atts fd s2 = (Inr m, s3)"
    "Conversations_updateOne_content (conv_id c) cont s3 = (Inr (), s4)"
    "publishClientMessage m s4 = (Inr (), s5)"
    "publishMessage m (conv_customerId c) s5 = (Inr (), s')"
    "i = msg_id m"
  using assms unfolding createMessage_def
  by (auto elim!: bind_io_Inr simp: return_io_def)

lemma createMessage_result:
  assumes "createMessage G this (Some c) u cont atts fd s = (Inr i, s')"
  shows "\<exists>m. messages s' = messages s @ [m] \<and> msg_id m = i \<and> conversationId m = conv_id c
           \<and> facebookData m = fd \<and> content m = cont"
proof -
  from assms obtain t s1 cu s2 m s3 s4 s5 where
    1: "getPageAccessToken G this s = (Inr t, s1)" and
    2: "getOrCreateCustomer G u (integration_id (integration this)) t s1 = (Inr cu, s2)" and
    3: "ConversationMessages_createMessage (conv_id c) (cust_id cu) cont atts fd s2 = (Inr m, s3)" and
    4: "Conversations_updateOne_content (conv_id c) cont s3 = (Inr (), s4)" and
    5: "publishClientMessage m s4 = (Inr (), s5)" and
    6: "publishMessage m (conv_customerId c) s5 = (Inr (), s')" and
    7: "i = msg_id m"
    by (rule createMessage_steps)
  have m1: "messages s1 = messages s" by (rule unchangedD [OF messages_getPageAccessToken 1])
  have m2: "messages s2 = messages s1" by (rule unchangedD [OF messages_getOrCreateCustomer 2])
  from 3 have m3: "messages s3 = messages s2 @ [m]" "conversationId m = conv_id c"
      "facebookData m = fd" "content m = cont"
    by (auto simp: ConversationMessages_createMessage_def Let_def)
  from 4 5 6 have "messages s' = messages s3"
    by (auto simp: Conversations_updateOne_content_def publishClientMessage_def publishMessage_def)
  with m1 m2 m3 7 show ?thesis by simp
qed

lemmas appends_getPageAccessToken = appends_unchanged [OF messages_getPageAccessToken]
lemmas appends_getOrCreateCustomer = appends_unchanged [OF messages_getOrCreateCustomer]

lemma appends_createMessage: "appends (createMessage G this conv u cont atts fd)"
proof (cases conv)
  case None
  then show ?thesis by (simp add: createMessage_def appends_throw)
next
  case (Some c)
  show ?thesis
    unfolding createMessage_def Some option.case
    by (intro appends_intros appends_getPageAccessToken appends_getOrCreateCustomer)
       (simp_all add: appends_def prim_defs Let_def)
qed

lemma appends_createMessageFromComments:
  "appends (createMessageFromComments G this conv u comments)"
proof (induction comments)
  case Nil
  show ?case by (simp add: appends_return)
next
  case (Cons comment rest)
  show ?case
    unfolding createMessageFromComments.simps
    by (intro appends_intros appends_createMessage Cons.IH)
       (simp_all add: appends_def prim_defs)
qed

lemma appends_restoreParentPost: "appends (restoreParentPost G this conv u fd)"
  unfolding restoreParentPost_def Let_def
  by (intro appends_intros appends_createMessage appends_createMessageFromComments
        appends_getPageAccessToken)
     (simp_all add: appends_def prim_defs)

subsection \<open>Conversation resolution\<close>

lemma fold_max_init: "a \<le> fold max ids (a::nat)"
proof (induction ids arbitrary: a)
  case Nil
  show ?case by simp
next
  case (Cons y ys)
  have "a \<le> max y a" by simp
  also have "max y a \<le> fold max ys (max y a)" by (rule Cons.IH)
  finally show ?case by simp
qed

lemma fold_max_mem: "x \<in> set ids \<Longrightarrow> x \<le> fold max ids (a::nat)"
proof (induction ids arbitrary: a)
  case Nil
  then show ?case by simp
next
  case (Cons y ys)
  from Cons.prems have "x = y \<or> x \<in> set ys" by simp
  then show ?case
  proof
    assume "x = y"
    then have "x \<le> max y a" by simp
    also have "max y a \<le> fold max ys (max y a)" by (rule fold_max_init)
    finally show ?thesis by simp
  next
    assume "x \<in> set ys"
    then have "x \<le> fold max ys (max y a)" by (rule Cons.IH)
    then show ?thesis by simp
  qed
qed

lemma fresh_id_fresh: "fresh_id ids \<notin> set ids"
proof
  assume "fresh_id ids \<in> set ids"
  then have "fresh_id ids \<le> fold max ids 0" by (rule fold_max_mem)
  then show False by (simp add: fresh_id_def)
qed

lemma map_update_first: "(\<And>x. f (g x) = f x) \<Longrightarrow> map f (update_first P g xs) = map f xs"
  by (induction xs) simp_all

lemma conv_keys_ids: "map conv_id (conversations s) = map fst (conv_keys s)"
  by (simp add: conv_keys_def o_def)

lemma conv_keys_status:
  "map (\<lambda>c. (conv_id c, conv_status c)) (conversations s)
     = map (\<lambda>k. (fst k, fst (snd k))) (conv_keys s)"
  by (simp add: conv_keys_def o_def)

lemma conv_keys_conversations: "unchanged conversations m \<Longrightarrow> unchanged conv_keys m"
  by (simp add: unchanged_def conv_keys_def)

lemmas conv_keys_getPageAccessToken = conv_keys_conversations [OF conversations_getPageAccessToken]
lemmas conv_keys_getOrCreateCustomer = conv_keys_conversations [OF conversations_getOrCreateCustomer]

lemma conv_keys_createMessage: "unchanged conv_keys (createMessage G this conv u cont atts fd)"
proof (cases conv)
  case None
  then show ?thesis by (simp add: createMessage_def unchanged_throw)
next
  case (Some c)
  show ?thesis
    unfolding createMessage_def Some option.case
    by (intro unchanged_intros conv_keys_getPageAccessToken conv_keys_getOrCreateCustomer)
       (simp_all add: unchanged_def conv_keys_def prim_defs Let_def map_update_first o_def)
qed

lemma conv_keys_createMessageFromComments:
  "unchanged conv_keys (createMessageFromComments G this conv u comments)"
proof (induction comments)
  case Nil
  show ?case by (simp add: unchanged_return)
next
  case (Cons comment rest)
  show ?case
    unfolding createMessageFromComments.simps
    by (intro unchanged_intros conv_keys_createMessage Cons.IH)
       (simp_all add: unchanged_def conv_keys_def prim_defs)
qed

lemma conv_keys_restoreParentPost: "unchanged conv_keys (restoreParentPost G this conv u fd)"
  unfolding restoreParentPost_def Let_def
  by (intro unchanged_intros conv_keys_createMessage conv_keys_createMessageFromComments
        conv_keys_getPageAccessToken)
     (simp_all add: unchanged_def conv_keys_def prim_defs)

text \<open>The two branches of the first half of \<open>getOrCreateConversation\<close>.\<close>

lemma conversation_reopened:
  assumes "findSelector params = Some sel"
      and "find (conv_matches sel) (rev (conversations s)) = Some c"
      and "\<not> starts_new c"
  shows "getOrCreateConversation_conversation G this params s = Conversations_reopen (conv_id c) s"
  using assms
  by (auto simp: getOrCreateConversation_conversation_def bind_io_def starts_new_def
      Conversations_findOne_latest_def split: option.splits)

lemma conversation_created:
  assumes "findSelector params = Some sel"
      and "find (conv_matches sel) (rev (conversations s)) = Some c"
      and "starts_new c"
      and "getOrCreateConversation_conversation G this params s = (Inr conv, s')"
  shows "\<exists>c'. conv = Some c' \<and> conv_id c' = fresh_id (map conv_id (conversations s))
           \<and> conversations s' = conversations s @ [c'] \<and> conv_status c' = p_status params
           \<and> conv_facebookData c' = (p_facebookData params)\<lparr>conv_pageId := currentPageId s\<rparr>"
proof -
  from assms(3) obtain n where n: "messageCount c = Some n" "1 < n" "conv_status c = CLOSED"
    by (auto simp: starts_new_def)
  let ?create = "bind_io (getPageAccessToken G this) (\<lambda>token.
       bind_io (getOrCreateCustomer G (p_senderId params) (integration_id (integration this)) token)
         (\<lambda>cu.
       bind_io (\<lambda>s. (Inr (currentPageId s), s)) (\<lambda>pageId.
       if \<not> truthy pageId
       then throw_io (Error ''getOrCreateConversation: Couldn't set current page id'')
       else
         bind_io (Conversations_createConversation (integration_id (integration this))
                    (cust_id cu) (p_status params) (Some (p_content params))
                    ((p_facebookData params)\<lparr>conv_pageId := pageId\<rparr>)) (\<lambda>c.
         bind_io (ActivityLogs_createConversationLog c cu) (\<lambda>_.
         return_io (Some c))))))"
  have "getOrCreateConversation_conversation G this params s = ?create s"
    using assms(1,2) n
    by (simp add: getOrCreateConversation_conversation_def bind_io_def
        Conversations_findOne_latest_def)
  with assms(4) have "?create s = (Inr conv, s')" by simp
  then obtain t s1 cu s2 where
    1: "getPageAccessToken G this s = (Inr t, s1)" and
    2: "getOrCreateCustomer G (p_senderId params) (integration_id (integration this)) t s1
          = (Inr cu, s2)" and
    3: "(if \<not> truthy (currentPageId s2)
       then throw_io (Error ''getOrCreateConversation: Couldn't set current page id'')
       else
         bind_io (Conversations_createConversation (integration_id (integration this))
                    (cust_id cu) (p_status params) (Some (p_content params))
                    ((p_facebookData params)\<lparr>conv_pageId := currentPageId s2\<rparr>)) (\<lambda>c.
         bind_io (ActivityLogs_createConversationLog c cu) (\<lambda>_.
         return_io (Some c)))) s2 = (Inr conv, s')"
    by (auto elim!: bind_io_Inr)
  have c1: "conversations s1 = conversations s"
    by (rule unchangedD [OF conversations_getPageAccessToken 1])
  have c2: "conversations s2 = conversations s1"
    by (rule unchangedD [OF conversations_getOrCreateCustomer 2])
  have p1: "currentPageId s1 = currentPageId s"
    by (rule unchangedD [OF currentPageId_getPageAccessToken 1])
  have p2: "currentPageId s2 = currentPageId s1"
    by (rule unchangedD [OF currentPageId_getOrCreateCustomer 2])
  from 3 show ?thesis
    by (auto simp: throw_io_def bind_io_def Conversations_createConversation_def
        ActivityLogs_createConversationLog_def return_io_def Let_def c1 c2 p1 p2
        split: if_splits)
qed

lemma find_SomeD: "find P xs = Some x \<Longrightarrow> x \<in> set xs \<and> P x"
  by (auto simp: find_Some_iff)

subsection \<open>Deliveries\<close>

lemma getOrCreateConversation_steps:
  assumes "getOrCreateConversation G this params s = (Inr i, s')"
  obtains cv s1 b s2 where
    "getOrCreateConversation_conversation G this params s = (Inr (Some cv), s1)"
    "restoreParentPost G this (Some cv) (p_senderId params) (msgFacebookData params) s1 = (Inr b, s2)"
    "createMessage G this (Some cv) (p_senderId params) (Some (p_content params))
           (p_attachments params) (msgFacebookData params) s2 = (Inr i, s')"
proof -
  from assms obtain conv s1 b s2 where
    r1: "getOrCreateConversation_conversation G this params s = (Inr conv, s1)" and
    r2: "restoreParentPost G this conv (p_senderId params) (msgFacebookData params) s1 = (Inr b, s2)" and
    r3: "createMessage G this conv (p_senderId params) (Some (p_content params))
           (p_attachments params) (msgFacebookData params) s2 = (Inr i, s')"
    unfolding getOrCreateConversation_def by (auto elim!: bind_io_Inr)
  from r3 obtain cv where "conv = Some cv"
    by (cases conv) (auto simp: createMessage_def throw_io_def)
  with r1 r2 r3 show thesis by (auto intro: that)
qed

lemma getOrCreateConversation_message:
  assumes "getOrCreateConversation G this params s = (Inr i, s')"
  shows "\<exists>ms m. messages s' = messages s @ ms @ [m] \<and> msg_id m = i
           \<and> facebookData m = msgFacebookData params
           \<and> (postId (msgFacebookData params) = None \<longrightarrow> ms = [])"
proof -
  from assms obtain cv s1 b s2 where
    r1: "getOrCreateConversation_conversation G this params s = (Inr (Some cv), s1)" and
    r2: "restoreParentPost G this (Some cv) (p_senderId params) (msgFacebookData params) s1 = (Inr b, s2)" and
    r3: "createMessage G this (Some cv) (p_senderId params) (Some (p_content params))
           (p_attachments params) (msgFacebookData params) s2 = (Inr i, s')"
    by (rule getOrCreateConversation_steps)
  have m1: "messages s1 = messages s" by (rule unchangedD [OF messages_conversation r1])
  from appendsD [OF appends_restoreParentPost r2] obtain ms where
    m2: "messages s2 = messages s1 @ ms" ..
  from createMessage_result [OF r3] obtain m where
    m3: "messages s' = messages s2 @ [m]" "msg_id m = i"
      "facebookData m = msgFacebookData params"
    by blast
  have "ms = []" if "postId (msgFacebookData params) = None"
  proof -
    from that r2 have "s2 = s1" by (simp add: restoreParentPost_def return_io_def)
    with m2 show ?thesis by simp
  qed
  with m1 m2 m3 show ?thesis by simp
qed

lemma find_msg_None:
  "(find (msg_matches [MessageIdIs i]) ms = None)
     = (\<not> (\<exists>m \<in> set ms. messageId (facebookData m) = Some i))"
  "(find (msg_matches [CommentIdIs c]) ms = None)
     = (\<not> (\<exists>m \<in> set ms. commentId (facebookData m) = Some c))"
  by (auto simp: find_None_iff msg_matches_def)

lemma bind_io_return: "bind_io (return_io x) f = f x"
  by (simp add: bind_io_def return_io_def)

lemma bind_io_assoc: "bind_io (bind_io m f) g = bind_io m (\<lambda>x. bind_io (f x) g)"
  by (auto simp: bind_io_def fun_eq_iff split: prod.splits sum.splits)

lemma bind_io_findOne:
  "bind_io (ConversationMessages_findOne sel) f s = f (find (msg_matches sel) (messages s)) s"
  by (simp add: bind_io_def ConversationMessages_findOne_def)

lemma ByMessenger_saved:
  assumes "ev_message ev = Some msg"
      and "find (msg_matches [MessageIdIs (mid msg)]) (messages s) = Some m"
  shows "getOrCreateConversationByMessenger G this ev s = (Inr (), s)"
  using assms
  by (simp add: getOrCreateConversationByMessenger_def Let_def ConversationMessages_findOne_def
      bind_io_def return_io_def)

lemma ByMessenger_new:
  assumes "ev_message ev = Some msg"
      and "find (msg_matches [MessageIdIs (mid msg)]) (messages s) = None"
  shows "getOrCreateConversationByMessenger G this ev s
           = bind_io (getOrCreateConversation G this (messenger_params ev msg))
               (\<lambda>_. return_io ()) s"
  using assms
  by (simp add: getOrCreateConversationByMessenger_def Let_def ConversationMessages_findOne_def
      bind_io_def messenger_params_def)

lemma ByFeed_saved:
  assumes "integration_facebookData (integration this) = Some ifd"
      and "item v = Some ''comment''" and "verb v = Some ''add''"
      and "comment_id v = Some c" and "c \<noteq> []"
      and "find (msg_matches [CommentIdIs c]) (messages s) = Some m"
  shows "getOrCreateConversationByFeed G this v s = (Inr (), s)"
  using assms
  by (simp add: getOrCreateConversationByFeed_def Let_def ConversationMessages_findOne_def
      bind_io_def return_io_def truthy_def)

lemma ByFeed_new:
  assumes "integration_facebookData (integration this) = Some ifd"
      and "item v = Some ''comment''" and "verb v = Some ''add''"
      and "comment_id v = Some c" and "c \<noteq> []"
      and "find (msg_matches [CommentIdIs c]) (messages s) = None"
  shows "getOrCreateConversationByFeed G this v s
           = bind_io (getPageAccessToken G this) (\<lambda>response.
               if response = TokenString ''Error processing https request''
               then throw_io
                      (Error ''getOrCreateConversationByFeed: Couldn't get Page access token'')
               else
                 bind_io (graph_request (ObjectCall (post_id v) (access_token response))
                            (\<lambda>n. graph_object G n (post_id v) (access_token response)))
                   (\<lambda>pId.
                 bind_io (getOrCreateConversation G this
                            (feed_params ifd v (generateCommentParams v) pId)) (\<lambda>_.
                 return_io ()))) s"
  using assms
  by (simp add: getOrCreateConversationByFeed_def Let_def bind_io_assoc bind_io_findOne
      bind_io_return truthy_def FACEBOOK_POST_TYPES_def feed_params_def cong: if_cong)

lemma ByFeed_facebookData:
  assumes "getOrCreateConversationByFeed G this v s = (Inr (), s1)"
  obtains ifd where "integration_facebookData (integration this) = Some ifd"
  using assms
  by (cases "integration_facebookData (integration this)")
     (auto simp: getOrCreateConversationByFeed_def throw_io_def)

lemma messenger_first_delivery:
  assumes msg: "ev_message ev = Some msg"
      and run: "getOrCreateConversationByMessenger G this ev s = (Inr (), s1)"
  shows "if \<exists>m \<in> set (messages s). messageId (facebookData m) = Some (mid msg)
         then s1 = s
         else \<exists>m. messages s1 = messages s @ [m] \<and> messageId (facebookData m) = Some (mid msg)"
proof (cases "find (msg_matches [MessageIdIs (mid msg)]) (messages s)")
  case None
  from run [unfolded ByMessenger_new [OF msg None]] obtain i where
    r: "getOrCreateConversation G this (messenger_params ev msg) s = (Inr i, s1)"
    by (auto elim!: bind_io_Inr simp: return_io_def)
  from getOrCreateConversation_message [OF r]
  have "\<exists>m. messages s1 = messages s @ [m] \<and> messageId (facebookData m) = Some (mid msg)"
    by (auto simp: messenger_params_def empty_facebookData_def)
  with None show ?thesis by (simp add: find_msg_None)
next
  case (Some m)
  from run ByMessenger_saved [OF msg Some, of G this] have "s1 = s" by simp
  moreover from Some have "find (msg_matches [MessageIdIs (mid msg)]) (messages s) \<noteq> None"
    by simp
  ultimately show ?thesis by (simp add: find_msg_None)
qed

lemma feed_first_delivery:
  assumes v: "item v = Some ''comment''" "verb v = Some ''add''"
      "comment_id v = Some c" "c \<noteq> []"
      and noid: "\<not> truthy (id' v)"
      and run: "getOrCreateConversationByFeed G this v s = (Inr (), s1)"
  shows "if \<exists>m \<in> set (messages s). commentId (facebookData m) = Some c
         then s1 = s
         else \<exists>ms m. messages s1 = messages s @ ms @ [m] \<and> commentId (facebookData m) = Some c"
proof -
  from run obtain ifd where ifd: "integration_facebookData (integration this) = Some ifd"
    by (rule ByFeed_facebookData)
  show ?thesis
  proof (cases "find (msg_matches [CommentIdIs c]) (messages s)")
    case None
    have cid: "commentId (generateCommentParams v) = Some c"
      using v(3) noid by (simp add: generateCommentParams_def Let_def split: option.splits)
    from run [unfolded ByFeed_new [OF ifd v None]] obtain response sa pId sb i where
      1: "getPageAccessToken G this s = (Inr response, sa)" and
      2: "graph_request (ObjectCall (post_id v) (access_token response))
            (\<lambda>n. graph_object G n (post_id v) (access_token response)) sa = (Inr pId, sb)" and
      r: "getOrCreateConversation G this (feed_params ifd v (generateCommentParams v) pId) sb
            = (Inr i, s1)"
      by (auto elim!: bind_io_Inr simp: return_io_def throw_io_def split: if_splits)
    have ma: "messages sa = messages s" by (rule unchangedD [OF messages_getPageAccessToken 1])
    from 2 have mb: "messages sb = messages sa" by (auto simp: graph_request_def)
    from getOrCreateConversation_message [OF r] cid ma mb
    have "\<exists>ms m. messages s1 = messages s @ ms @ [m] \<and> commentId (facebookData m) = Some c"
      by (auto simp: feed_params_def)
    with None show ?thesis by (simp add: find_msg_None)
  next
    case (Some m)
    from run ByFeed_saved [OF ifd v Some, of G] have "s1 = s" by simp
    moreover from Some have "find (msg_matches [CommentIdIs c]) (messages s) \<noteq> None"
      by simp
    ultimately show ?thesis by (simp add: find_msg_None)
  qed
qed

subsection \<open>Messenger selectors\<close>

lemma messenger_selector_swap:
  "conv_matches (messenger_selector a b) c = conv_matches (messenger_selector b a) c"
  by (auto simp: conv_matches_def messenger_selector_def)

lemma messenger_selector_kind:
  "conv_matches (messenger_selector a b) c \<Longrightarrow> conv_kind (conv_facebookData c) = MESSENGER"
  by (simp add: conv_matches_def messenger_selector_def)

lemma messenger_selector_parties:
  "conv_matches (messenger_selector a b) c
     = (conv_kind (conv_facebookData c) = MESSENGER
        \<and> (conv_senderId (conv_facebookData c) = a \<and> conv_recipientId (conv_facebookData c) = Some b
           \<or> conv_senderId (conv_facebookData c) = b \<and> conv_recipientId (conv_facebookData c) = Some a))"
  by (simp add: conv_matches_def messenger_selector_def)

lemma conv_matches_facebookData:
  assumes "conv_facebookData x = conv_facebookData y"
  shows "conv_matches sel x = conv_matches sel y"
proof -
  have c: "conv_cond_holds x q = conv_cond_holds y q" for q
    using assms by (cases q) simp_all
  then have "conv_cond_holds x = conv_cond_holds y" by (rule ext)
  then have "conv_clause_holds x q = conv_clause_holds y q" for q
    by (cases q) simp_all
  then have "conv_clause_holds x = conv_clause_holds y" by (rule ext)
  then show ?thesis by (simp add: conv_matches_def)
qed

lemma find_map_inv: "(\<And>x. P (g x) = P x) \<Longrightarrow> find P (map g xs) = map_option g (find P xs)"
  by (induction xs) simp_all

lemma find_same_keys:
  assumes "map k xs = map k ys" and "\<And>x y. k x = k y \<Longrightarrow> P x = P y"
  shows "map_option k (find P xs) = map_option k (find P ys)"
  using assms(1)
proof (induction xs arbitrary: ys)
  case Nil
  then show ?case by simp
next
  case (Cons x xs)
  then obtain y ys' where ys: "ys = y # ys'" and k: "k x = k y" and rest: "map k xs = map k ys'"
    by (cases ys) auto
  from k have "P x = P y" by (rule assms(2))
  with Cons.IH [OF rest] k ys show ?case by simp
qed

lemma bind_io_findOne_latest:
  "bind_io (Conversations_findOne_latest sel) f s
     = f (find (conv_matches sel) (rev (conversations s))) s"
  by (simp add: bind_io_def Conversations_findOne_latest_def)

lemma conversation_created_general:
  assumes "case findSelector params of None \<Rightarrow> True
           | Some sel \<Rightarrow> (case find (conv_matches sel) (rev (conversations s)) of
                          None \<Rightarrow> True | Some c \<Rightarrow> starts_new c)"
      and "getOrCreateConversation_conversation G this params s = (Inr conv, s')"
  shows "\<exists>c'. conv = Some c' \<and> conv_id c' = fresh_id (map conv_id (conversations s))
           \<and> conversations s' = conversations s @ [c'] \<and> conv_status c' = p_status params
           \<and> conv_facebookData c' = (p_facebookData params)\<lparr>conv_pageId := currentPageId s\<rparr>"
proof -
  let ?create = "bind_io (getPageAccessToken G this) (\<lambda>token.
       bind_io (getOrCreateCustomer G (p_senderId params) (integration_id (integration this)) token)
         (\<lambda>cu.
       bind_io (\<lambda>s. (Inr (currentPageId s), s)) (\<lambda>pageId.
       if \<not> truthy pageId
       then throw_io (Error ''getOrCreateConversation: Couldn't set current page id'')
       else
         bind_io (Conversations_createConversation (integration_id (integration this))
                    (cust_id cu) (p_status params) (Some (p_content params))
                    ((p_facebookData params)\<lparr>conv_pageId := pageId\<rparr>)) (\<lambda>c.
         bind_io (ActivityLogs_createConversationLog c cu) (\<lambda>_.
         return_io (Some c))))))"
  have "getOrCreateConversation_conversation G this params s = ?create s"
    using assms(1)
    by (auto simp: getOrCreateConversation_conversation_def bind_io_return
        bind_io_findOne_latest starts_new_def split: option.splits)
  with assms(2) have "?create s = (Inr conv, s')" by simp
  then obtain t s1 cu s2 where
    1: "getPageAccessToken G this s = (Inr t, s1)" and
    2: "getOrCreateCustomer G (p_senderId params) (integration_id (integration this)) t s1
          = (Inr cu, s2)" and
    3: "(if \<not> truthy (currentPageId s2)
       then throw_io (Error ''getOrCreateConversation: Couldn't set current page id'')
       else
         bind_io (Conversations_createConversation (integration_id (integration this))
                    (cust_id cu) (p_status params) (Some (p_content params))
                    ((p_facebookData params)\<lparr>conv_pageId := currentPageId s2\<rparr>)) (\<lambda>c.
         bind_io (ActivityLogs_createConversationLog c cu) (\<lambda>_.
         return_io (Some c)))) s2 = (Inr conv, s')"
    by (auto elim!: bind_io_Inr)
  have c1: "conversations s1 = conversations s"
    by (rule unchangedD [OF conversations_getPageAccessToken 1])
  have c2: "conversations s2 = conversations s1"
    by (rule unchangedD [OF conversations_getOrCreateCustomer 2])
  have p1: "currentPageId s1 = currentPageId s"
    by (rule unchangedD [OF currentPageId_getPageAccessToken 1])
  have p2: "currentPageId s2 = currentPageId s1"
    by (rule unchangedD [OF currentPageId_getOrCreateCustomer 2])
  from 3 show ?thesis
    by (auto simp: throw_io_def bind_io_def Conversations_createConversation_def
        ActivityLogs_createConversationLog_def return_io_def Let_def c1 c2 p1 p2
        split: if_splits)
qed

lemma messenger_resolved:
  assumes r: "getOrCreateConversation_conversation G this (messenger_params ev msg) s
                = (Inr (Some cv), t)"
  shows "\<exists>c'. find (conv_matches (messenger_selector (user_id (sender ev)) (recipient_id ev)))
                 (rev (conversations t)) = Some c'
              \<and> conv_id c' = conv_id cv \<and> conv_status c' \<noteq> CLOSED"
proof -
  let ?sel = "messenger_selector (user_id (sender ev)) (recipient_id ev)"
  have fs: "findSelector (messenger_params ev msg) = Some ?sel"
    by (simp add: messenger_params_def)
  show ?thesis
  proof (cases "case find (conv_matches ?sel) (rev (conversations s)) of
                  None \<Rightarrow> True | Some c \<Rightarrow> starts_new c")
    case True
    with fs have "case findSelector (messenger_params ev msg) of None \<Rightarrow> True
           | Some sel \<Rightarrow> (case find (conv_matches sel) (rev (conversations s)) of
                          None \<Rightarrow> True | Some c \<Rightarrow> starts_new c)"
      by simp
    from conversation_created_general [OF this r] have
      cs: "conversations t = conversations s @ [cv]" and st: "conv_status cv = NEW" and
      fd: "conv_facebookData cv
             = (p_facebookData (messenger_params ev msg))\<lparr>conv_pageId := currentPageId s\<rparr>"
      by (auto simp: messenger_params_def)
    from fd have "conv_matches ?sel cv"
      by (simp add: conv_matches_def messenger_selector_def messenger_params_def)
    with cs st show ?thesis by simp
  next
    case False
    then obtain c where found: "find (conv_matches ?sel) (rev (conversations s)) = Some c"
      and keep: "\<not> starts_new c"
      by (auto split: option.splits)
    let ?g = "\<lambda>x. if conv_id x = conv_id c then x\<lparr>conv_status := OPEN\<rparr> else x"
    from conversation_reopened [OF fs found keep] r have
      "Conversations_reopen (conv_id c) s = (Inr (Some cv), t)" by simp
    then have cs: "conversations t = map ?g (conversations s)"
      and cvf: "find (\<lambda>x. conv_id x = conv_id c) (conversations t) = Some cv"
      by (auto simp: Conversations_reopen_def Let_def)
    from cvf have same: "conv_id cv = conv_id c" by (auto dest: find_SomeD)
    have inv: "conv_matches ?sel (?g x) = conv_matches ?sel x" for x
      by (rule conv_matches_facebookData) simp
    have "find (conv_matches ?sel) (rev (conversations t))
            = map_option ?g (find (conv_matches ?sel) (rev (conversations s)))"
      unfolding cs rev_map by (rule find_map_inv) (rule inv)
    with found have "find (conv_matches ?sel) (rev (conversations t)) = Some (?g c)" by simp
    with same show ?thesis by simp
  qed
qed

lemma messenger_run:
  assumes r: "getOrCreateConversation G this (messenger_params ev msg) s = (Inr i, s')"
  obtains cv t m where
    "getOrCreateConversation_conversation G this (messenger_params ev msg) s = (Inr (Some cv), t)"
    "conv_keys s' = conv_keys t"
    "messages s' = messages s @ [m]"
    "conversationId m = conv_id cv"
    "messageId (facebookData m) = Some (mid msg)"
proof -
  let ?p = "messenger_params ev msg"
  have np: "postId (msgFacebookData ?p) = None"
    by (simp add: messenger_params_def empty_facebookData_def)
  from r obtain cv s1 b s2 where
    r1: "getOrCreateConversation_conversation G this ?p s = (Inr (Some cv), s1)" and
    r2: "restoreParentPost G this (Some cv) (p_senderId ?p) (msgFacebookData ?p) s1 = (Inr b, s2)" and
    r3: "createMessage G this (Some cv) (p_senderId ?p) (Some (p_content ?p))
           (p_attachments ?p) (msgFacebookData ?p) s2 = (Inr i, s')"
    by (rule getOrCreateConversation_steps)
  from r2 np have s2: "s2 = s1" by (simp add: restoreParentPost_def return_io_def)
  have m1: "messages s1 = messages s" by (rule unchangedD [OF messages_conversation r1])
  from createMessage_result [OF r3] obtain m where
    m3: "messages s' = messages s2 @ [m]" "conversationId m = conv_id cv"
      "facebookData m = msgFacebookData ?p"
    by blast
  have k: "conv_keys s' = conv_keys s1"
    using unchangedD [OF conv_keys_createMessage r3] s2 by simp
  from m3(3) have mi: "messageId (facebookData m) = Some (mid msg)"
    by (simp add: messenger_params_def empty_facebookData_def)
  from m3(1) m1 s2 have ms: "messages s' = messages s @ [m]" by simp
  show thesis by (rule that [OF r1 k ms m3(2) mi])
qed

lemma conv_keys_memD:
  assumes "conv_keys s = conv_keys t" and "c \<in> set (conversations t)"
  shows "\<exists>c'. c' \<in> set (conversations s) \<and> conv_id c' = conv_id c
           \<and> conv_status c' = conv_status c \<and> conv_facebookData c' = conv_facebookData c"
proof -
  let ?k = "\<lambda>c. (conv_id c, conv_status c, conv_facebookData c)"
  from assms(2) have "?k c \<in> set (map ?k (conversations t))" by simp
  with assms(1) have "?k c \<in> set (map ?k (conversations s))" by (simp add: conv_keys_def)
  then obtain c' where "c' \<in> set (conversations s)" "?k c' = ?k c" by auto
  then show ?thesis by auto
qed

lemma messenger_continuity:
  assumes m1: "ev_message ev1 = Some msg1" and m2: "ev_message ev2 = Some msg2"
      and swap: "user_id (sender ev2) = recipient_id ev1" "recipient_id ev2 = user_id (sender ev1)"
      and new1: "\<not> (\<exists>m \<in> set (messages s0). messageId (facebookData m) = Some (mid msg1))"
      and new2: "\<not> (\<exists>m \<in> set (messages s1). messageId (facebookData m) = Some (mid msg2))"
      and e1: "getOrCreateConversationByMessenger G this ev1 s0 = (Inr (), s1)"
      and e2: "getOrCreateConversationByMessenger G this ev2 s1 = (Inr (), s2)"
  shows "\<exists>x y c c'. messages s1 = messages s0 @ [x] \<and> messages s2 = messages s1 @ [y]
           \<and> messageId (facebookData x) = Some (mid msg1)
           \<and> messageId (facebookData y) = Some (mid msg2)
           \<and> find (conv_matches (messenger_selector (user_id (sender ev1)) (recipient_id ev1)))
                (rev (conversations s1)) = Some c
           \<and> find (conv_matches (messenger_selector (user_id (sender ev2)) (recipient_id ev2)))
                (rev (conversations s1)) = Some c
           \<and> conversationId x = conv_id c \<and> conversationId y = conv_id c
           \<and> c' \<in> set (conversations s2) \<and> conv_id c' = conv_id c \<and> conv_status c' = OPEN
           \<and> conv_facebookData c' = conv_facebookData c"
proof -
  let ?sel = "messenger_selector (user_id (sender ev1)) (recipient_id ev1)"
  let ?sel' = "messenger_selector (user_id (sender ev2)) (recipient_id ev2)"
  let ?k = "\<lambda>c. (conv_id c, conv_status c, conv_facebookData c)"
  from new1 have n1: "find (msg_matches [MessageIdIs (mid msg1)]) (messages s0) = None"
    by (simp add: find_msg_None)
  from new2 have n2: "find (msg_matches [MessageIdIs (mid msg2)]) (messages s1) = None"
    by (simp add: find_msg_None)
  from e1 [unfolded ByMessenger_new [OF m1 n1]] obtain i1 where
    r1: "getOrCreateConversation G this (messenger_params ev1 msg1) s0 = (Inr i1, s1)"
    by (auto elim!: bind_io_Inr simp: return_io_def)
  from e2 [unfolded ByMessenger_new [OF m2 n2]] obtain i2 where
    r2: "getOrCreateConversation G this (messenger_params ev2 msg2) s1 = (Inr i2, s2)"
    by (auto elim!: bind_io_Inr simp: return_io_def)
  from r1 obtain cv1 t1 x where
    a1: "getOrCreateConversation_conversation G this (messenger_params ev1 msg1) s0
           = (Inr (Some cv1), t1)" and
    k1: "conv_keys s1 = conv_keys t1" and
    x: "messages s1 = messages s0 @ [x]" "conversationId x = conv_id cv1"
       "messageId (facebookData x) = Some (mid msg1)"
    by (rule messenger_run)
  from r2 obtain cv2 t2 y where
    a2: "getOrCreateConversation_conversation G this (messenger_params ev2 msg2) s1
           = (Inr (Some cv2), t2)" and
    k2: "conv_keys s2 = conv_keys t2" and
    y: "messages s2 = messages s1 @ [y]" "conversationId y = conv_id cv2"
       "messageId (facebookData y) = Some (mid msg2)"
    by (rule messenger_run)
  from messenger_resolved [OF a1] obtain c' where
    c': "find (conv_matches ?sel) (rev (conversations t1)) = Some c'"
      "conv_id c' = conv_id cv1" "conv_status c' \<noteq> CLOSED"
    by blast
  have "rev (map ?k (conversations s1)) = rev (map ?k (conversations t1))"
    using k1 by (simp add: conv_keys_def)
  then have "map ?k (rev (conversations s1)) = map ?k (rev (conversations t1))"
    by (simp only: rev_map)
  then have "map_option ?k (find (conv_matches ?sel) (rev (conversations s1)))
           = map_option ?k (find (conv_matches ?sel) (rev (conversations t1)))"
    by (rule find_same_keys) (rule conv_matches_facebookData, simp)
  with c'(1) have "map_option ?k (find (conv_matches ?sel) (rev (conversations s1)))
           = Some (?k c')"
    by simp
  then obtain c3 where f3: "find (conv_matches ?sel) (rev (conversations s1)) = Some c3"
    and k3: "?k c3 = ?k c'"
    by (cases "find (conv_matches ?sel) (rev (conversations s1))") simp_all
  from k3 c'(2,3) have c3: "conv_id c3 = conv_id cv1" "conv_status c3 \<noteq> CLOSED"
    by simp_all
  have "conv_matches ?sel' = conv_matches ?sel"
    unfolding swap by (rule ext) (rule messenger_selector_swap)
  with f3 have f2: "find (conv_matches ?sel') (rev (conversations s1)) = Some c3" by simp
  have fs: "findSelector (messenger_params ev2 msg2) = Some ?sel'"
    by (simp add: messenger_params_def)
  from c3(2) have keep: "\<not> starts_new c3" by (simp add: starts_new_def)
  let ?g = "\<lambda>c. if conv_id c = conv_id c3 then c\<lparr>conv_status := OPEN\<rparr> else c"
  from conversation_reopened [OF fs f2 keep] a2 have
    "Conversations_reopen (conv_id c3) s1 = (Inr (Some cv2), t2)" by simp
  then have cv2: "find (\<lambda>x. conv_id x = conv_id c3) (conversations t2) = Some cv2"
    and ct2: "conversations t2 = map ?g (conversations s1)"
    by (auto simp: Conversations_reopen_def Let_def)
  from cv2 have id2: "conv_id cv2 = conv_id c3" by (auto dest: find_SomeD)
  from f3 have "c3 \<in> set (rev (conversations s1))" by (auto dest: find_SomeD)
  then have "?g c3 \<in> set (conversations t2)" unfolding ct2 by simp
  from conv_keys_memD [OF k2 this] obtain c4 where
    c4: "c4 \<in> set (conversations s2)" "conv_id c4 = conv_id c3" "conv_status c4 = OPEN"
      "conv_facebookData c4 = conv_facebookData c3"
    by auto
  from x y f3 f2 c3(1) id2 c4 show ?thesis by auto
qed

section \<open>The dispatcher\<close>

text \<open>
  C1. The claim: an entry whose id is not among the integration's page ids is skipped
  on its own and the later entries of the delivery are still dispatched. The code
  leaves \<open>start\<close> at that entry. Evaluated on a delivery of the foreign entry \<open>p2\<close>
  followed by the owned entry \<open>p1\<close> with one messenger event: nothing is stored and no
  request is sent, while the owned entry delivered alone stores the message \<open>m1\<close>.
\<close>

theorem start_returns_at_foreign_entry:
  "start ex_graph ex_this
     \<lparr>data_object = ''page'', data_entry = [ex_foreign_entry, ex_owned_entry]\<rparr> empty_state
     = (Inr (), empty_state)
   \<and> map (\<lambda>m. messageId (facebookData m))
        (messages (snd (start ex_graph ex_this
           \<lparr>data_object = ''page'', data_entry = [ex_owned_entry]\<rparr> empty_state)))
     = [Some ''m1'']"
  by (simp add: run_defs ex_defs)

text \<open>
  C10. For a payload whose \<open>object\<close> is not \<open>page\<close>, and an integration that has
  \<open>facebookData\<close>, \<open>start\<close> returns with the state as it was: nothing is written to the
  store, no request is sent to the Graph API, nothing is published.
\<close>

theorem start_ignores_other_objects:
  assumes "data_object d \<noteq> ''page''"
      and "integration_facebookData (integration this) = Some fd"
  shows "start G this d s = (Inr (), s)"
  using assms by (simp add: start_def return_io_def)

theorem start_ignores_other_objects_witness:
  "start ex_graph ex_this \<lparr>data_object = ''user'', data_entry = [ex_owned_entry]\<rparr> empty_state
     = (Inr (), empty_state)"
proof -
  have 1: "data_object \<lparr>data_object = ''user'', data_entry = [ex_owned_entry]\<rparr> \<noteq> ''page''"
    by simp
  have 2: "integration_facebookData (integration ex_this)
             = Some \<lparr>pageIds = [''p1''], accountId = ''a1''\<rparr>"
    by (simp add: ex_this_def)
  show ?thesis by (rule start_ignores_other_objects [OF 1 2])
qed

section \<open>Comment parameters\<close>

text \<open>
  C6, as amended. \<open>generateCommentParams\<close> sets \<open>parentId\<close> to \<open>parent_id\<close> whenever
  \<open>post_id\<close> differs from \<open>parent_id\<close>, with or without a \<open>parent\<close> object; when the two
  are equal (both absent included) \<open>parentId\<close> is the id of the \<open>parent\<close> object, and
  absent without one.
\<close>

theorem generateCommentParams_parentId:
  "parentId (generateCommentParams v) =
     (if post_id v \<noteq> parent_id v then parent_id v else parent v)"
  by (simp add: generateCommentParams_def Let_def empty_facebookData_def split: option.splits)

text \<open>The claim as stated fails: a comment with the parent object \<open>c9\<close>, \<open>post_id\<close>
  \<open>p1\<close> and \<open>parent_id\<close> \<open>c1\<close> gets the \<open>parentId\<close> \<open>c1\<close>, not \<open>c9\<close>.\<close>

theorem generateCommentParams_parent_counterexample:
  "parent (blank_object\<lparr>parent := Some ''c9'', post_id := Some ''p1'',
                        parent_id := Some ''c1''\<rparr>) = Some ''c9''
   \<and> parentId (generateCommentParams
        (blank_object\<lparr>parent := Some ''c9'', post_id := Some ''p1'', parent_id := Some ''c1''\<rparr>))
     = Some ''c1''"
  by (simp add: generateCommentParams_def Let_def empty_facebookData_def blank_object_def
      truthy_def)

section \<open>Reactions\<close>

text \<open>
  C5, as amended. For every like or reaction event that carries a non-empty
  \<open>comment_id\<close>, with or without a \<open>post_id\<close>, the selector of \<open>handleReactions\<close> is the
  comment-id selector; the counter or reaction update runs with that selector, and the
  messages with another \<open>commentId\<close> stay as they were.
\<close>

theorem handleReactions_comment_id_wins:
  assumes "comment_id v = Some c" and "c \<noteq> []"
  shows "reaction_selector v = [CommentIdIs c]
         \<and> handleReactions v s =
             (if item v = Some ''like'' then updateLikeCount (verb v) [CommentIdIs c] s
              else if item v = Some ''reaction''
                   then updateReactions (verb v) [CommentIdIs c]
                          (or_default (reaction_type v) ''like'') (from_user v) s
                   else (Inr (), s))
         \<and> filter (\<lambda>m. commentId (facebookData m) \<noteq> Some c) (messages (snd (handleReactions v s)))
             = filter (\<lambda>m. commentId (facebookData m) \<noteq> Some c) (messages s)"
proof -
  have sel: "reaction_selector v = [CommentIdIs c]"
    using assms by (simp add: reaction_selector_def Let_def split: option.splits)
  have run: "handleReactions v s =
             (if item v = Some ''like'' then updateLikeCount (verb v) [CommentIdIs c] s
              else if item v = Some ''reaction''
                   then updateReactions (verb v) [CommentIdIs c]
                          (or_default (reaction_type v) ''like'') (from_user v) s
                   else (Inr (), s))"
    by (simp add: handleReactions_def sel Let_def bind_io_def return_io_def updateLikeCount_def
        ConversationMessages_updateMany_def)
  have keep: "filter (\<lambda>m. commentId (facebookData m) \<noteq> Some c)
                (messages (snd (ConversationMessages_updateMany [CommentIdIs c] upd s)))
              = filter (\<lambda>m. commentId (facebookData m) \<noteq> Some c) (messages s)"
    if "\<And>fd. commentId (upd fd) = commentId fd" for upd
  proof -
    have "filter (\<lambda>m. commentId (facebookData m) \<noteq> Some c)
            (map (\<lambda>m. if msg_matches [CommentIdIs c] m
                       then m\<lparr>facebookData := upd (facebookData m)\<rparr> else m) ms)
          = filter (\<lambda>m. commentId (facebookData m) \<noteq> Some c) ms" for ms
      by (induction ms) (simp_all add: msg_matches_def that)
    then show ?thesis by (simp add: ConversationMessages_updateMany_def)
  qed
  have "filter (\<lambda>m. commentId (facebookData m) \<noteq> Some c) (messages (snd (handleReactions v s)))
             = filter (\<lambda>m. commentId (facebookData m) \<noteq> Some c) (messages s)"
    unfolding run by (simp add: updateLikeCount_def updateReactions_def keep Let_def)
  with sel run show ?thesis by simp
qed

theorem handleReactions_comment_id_wins_witness:
  "reaction_selector ex_like = [CommentIdIs ''c1'']
   \<and> handleReactions ex_like ex_store = updateLikeCount (Some ''add'') [CommentIdIs ''c1''] ex_store
   \<and> filter (\<lambda>m. commentId (facebookData m) \<noteq> Some ''c1'')
        (messages (snd (handleReactions ex_like ex_store)))
       = [ex_message 1 (empty_facebookData\<lparr>postId := Some ''p1'', isPost := True\<rparr>)]"
proof -
  have 1: "comment_id ex_like = Some ''c1''" by (simp add: ex_like_def blank_object_def)
  have 2: "''c1'' \<noteq> []" by simp
  have 3: "item ex_like = Some ''like''" "verb ex_like = Some ''add''"
    by (simp_all add: ex_like_def blank_object_def)
  have 4: "filter (\<lambda>m. commentId (facebookData m) \<noteq> Some ''c1'') (messages ex_store)
       = [ex_message 1 (empty_facebookData\<lparr>postId := Some ''p1'', isPost := True\<rparr>)]"
    by (simp add: ex_store_def empty_state_def ex_message_def empty_facebookData_def)
  note T = handleReactions_comment_id_wins [OF 1 2, of ex_store]
  from T have a: "reaction_selector ex_like = [CommentIdIs ''c1'']" by (rule conjunct1)
  from T 3 have b: "handleReactions ex_like ex_store
      = updateLikeCount (Some ''add'') [CommentIdIs ''c1''] ex_store"
    by simp
  from T have "filter (\<lambda>m. commentId (facebookData m) \<noteq> Some ''c1'')
        (messages (snd (handleReactions ex_like ex_store)))
      = filter (\<lambda>m. commentId (facebookData m) \<noteq> Some ''c1'') (messages ex_store)"
    by (rule conjunct2 [THEN conjunct2])
  from this 4 have c: "filter (\<lambda>m. commentId (facebookData m) \<noteq> Some ''c1'')
        (messages (snd (handleReactions ex_like ex_store)))
      = [ex_message 1 (empty_facebookData\<lparr>postId := Some ''p1'', isPost := True\<rparr>)]"
    by (rule trans)
  from a b c show ?thesis by (intro conjI)
qed

text \<open>The claim as stated fails: for a like with \<open>post_id\<close> \<open>p1\<close> and \<open>comment_id\<close>
  \<open>c1\<close> the selector is not the post-id selector, and of the two messages of post \<open>p1\<close>
  only the comment \<open>c1\<close> is counted.\<close>

theorem handleReactions_post_id_counterexample:
  "reaction_selector ex_like \<noteq> [PostIdIs ''p1'']
   \<and> map (\<lambda>m. (postId (facebookData m), commentId (facebookData m), likeCount (facebookData m)))
        (messages (snd (handleReactions ex_like ex_store)))
      = [(Some ''p1'', None, None), (Some ''p1'', Some ''c1'', Some 1)]"
  by (simp add: handleReactions_def reaction_selector_def updateLikeCount_def
      ConversationMessages_updateMany_def bind_io_def return_io_def msg_matches_def Let_def
      ex_like_def ex_store_def blank_object_def empty_state_def ex_message_def
      empty_facebookData_def)

text \<open>
  C9. After \<open>updateReactions\<close> with a verb other than \<open>add\<close>, no message that matches
  the selector has an entry with the actor's id in \<open>reactions[reactionType]\<close>, however
  often the actor stood there before.
\<close>

theorem updateReactions_remove:
  assumes "type \<noteq> Some ''add''"
  shows "\<forall>m \<in> set (messages (snd (updateReactions type selector reactionType actor s))).
           msg_matches selector m \<longrightarrow>
           (\<forall>u \<in> set (reactions (facebookData m) reactionType). user_id u \<noteq> user_id actor)"
  using assms
  by (auto simp: updateReactions_def ConversationMessages_updateMany_def msg_matches_reactions_upd
      split: if_splits)

theorem updateReactions_remove_witness:
  "map (\<lambda>m. map user_id (reactions (facebookData m) ''love'')) (messages ex_store)
     = [[], [''100'', ''200'', ''100'']]
   \<and> ''100'' \<notin> set (concat (map (\<lambda>m. map user_id (reactions (facebookData m) ''love''))
        (filter (msg_matches [CommentIdIs ''c1''])
          (messages (snd (updateReactions (Some ''remove'') [CommentIdIs ''c1''] ''love''
             \<lparr>user_id = ''100'', user_name = Some ''Ann''\<rparr> ex_store))))))
   \<and> map (\<lambda>m. map user_id (reactions (facebookData m) ''love''))
        (messages (snd (updateReactions (Some ''remove'') [CommentIdIs ''c1''] ''love''
           \<lparr>user_id = ''100'', user_name = Some ''Ann''\<rparr> ex_store)))
     = [[], [''200'']]"
proof -
  have 1: "Some ''remove'' \<noteq> Some ''add''" by simp
  note T = updateReactions_remove [OF 1, of "[CommentIdIs ''c1'']" "''love''"
      "\<lparr>user_id = ''100'', user_name = Some ''Ann''\<rparr>" ex_store]
  have a: "map (\<lambda>m. map user_id (reactions (facebookData m) ''love'')) (messages ex_store)
     = [[], [''100'', ''200'', ''100'']]"
    by (simp add: ex_defs empty_facebookData_def)
  let ?after = "messages (snd (updateReactions (Some ''remove'') [CommentIdIs ''c1''] ''love''
             \<lparr>user_id = ''100'', user_name = Some ''Ann''\<rparr> ex_store))"
  have b: "''100'' \<notin> set (concat (map (\<lambda>m. map user_id (reactions (facebookData m) ''love''))
        (filter (msg_matches [CommentIdIs ''c1'']) ?after)))"
  proof
    assume "''100'' \<in> set (concat (map (\<lambda>m. map user_id (reactions (facebookData m) ''love''))
        (filter (msg_matches [CommentIdIs ''c1'']) ?after)))"
    then obtain m u where "m \<in> set ?after" "msg_matches [CommentIdIs ''c1''] m"
        "u \<in> set (reactions (facebookData m) ''love'')" "user_id u = ''100''"
      by auto
    with T show False by auto
  qed
  have c: "map (\<lambda>m. map user_id (reactions (facebookData m) ''love''))
        (messages (snd (updateReactions (Some ''remove'') [CommentIdIs ''c1''] ''love''
           \<lparr>user_id = ''100'', user_name = Some ''Ann''\<rparr> ex_store)))
     = [[], [''200'']]"
    by (simp add: updateReactions_def ConversationMessages_updateMany_def msg_matches_def
        ex_defs empty_facebookData_def)
  from a b c show ?thesis by (intro conjI)
qed

section \<open>Customers\<close>

text \<open>
  C7, as amended. When no customer has the platform user id and the Graph API answers
  the request for the user, \<open>getOrCreateCustomer\<close> creates the customer (a failed
  picture request does not prevent it): \<open>firstName\<close> is \<open>first_name\<close> when that is
  non-empty and the whole \<open>name\<close> otherwise; \<open>lastName\<close> is \<open>last_name\<close>, and empty
  without one. A combined \<open>name\<close> is stored whole, not split.
\<close>

theorem getOrCreateCustomer_name:
  assumes "find (\<lambda>c. cust_facebookId c = u) (customers s) = None"
      and "graph_user G (length (graphCalls s)) u tok = Inr res"
  shows "\<exists>cu s'. getOrCreateCustomer G u i tok s = (Inr cu, s')
           \<and> customers s' = customers s @ [cu]
           \<and> cust_facebookId cu = u
           \<and> firstName cu = (if truthy (first_name res) then first_name res else name res)
           \<and> lastName cu = (case last_name res of None \<Rightarrow> [] | Some l \<Rightarrow> l)"
  using assms
  by (simp add: getOrCreateCustomer_def bind_io_def Customers_findOne_def graph_request_def
      getProfilePic_def Customers_createCustomer_def ActivityLogs_createCustomerRegistrationLog_def
      return_io_def js_or_def or_default_def Let_def split: sum.splits option.splits prod.splits)

theorem getOrCreateCustomer_name_witness:
  "\<exists>cu s'. getOrCreateCustomer
              (ex_graph\<lparr>graph_user := (\<lambda>_ _ _. Inr \<lparr>first_name = Some ''Ann'',
                                           last_name = Some ''Lee'', name = Some ''A. Lee''\<rparr>)\<rparr>)
              ''100'' ''i1'' (TokenObject (Some ''page-token'')) empty_state = (Inr cu, s')
           \<and> customers s' = [cu] \<and> cust_facebookId cu = ''100''
           \<and> firstName cu = Some ''Ann'' \<and> lastName cu = ''Lee''"
proof -
  have 1: "find (\<lambda>c. cust_facebookId c = ''100'') (customers empty_state) = None"
    by (simp add: empty_state_def)
  have 2: "graph_user (ex_graph\<lparr>graph_user := (\<lambda>_ _ _. Inr \<lparr>first_name = Some ''Ann'',
                 last_name = Some ''Lee'', name = Some ''A. Lee''\<rparr>)\<rparr>)
             (length (graphCalls empty_state)) ''100'' (TokenObject (Some ''page-token''))
           = Inr \<lparr>first_name = Some ''Ann'', last_name = Some ''Lee'', name = Some ''A. Lee''\<rparr>"
    by simp
  from getOrCreateCustomer_name [OF 1 2, of "''i1''"] show ?thesis
    by (simp add: empty_state_def truthy_def)
qed

text \<open>The claim as stated fails: for a user with the \<open>name\<close> \<open>John Smith\<close> only, the
  customer created has the whole name as \<open>firstName\<close> and an empty \<open>lastName\<close>.\<close>

theorem getOrCreateCustomer_name_counterexample:
  "fst (getOrCreateCustomer ex_graph ''100'' ''i1'' (TokenObject (Some ''page-token'')) empty_state)
     = Inr \<lparr>cust_id = 1, firstName = Some ''John Smith'', lastName = [],
            cust_integrationId = ''i1'', avatar = [], cust_facebookId = ''100''\<rparr>"
  by (simp add: run_defs ex_defs)

section \<open>Conversations\<close>

text \<open>
  C2. When the selector of \<open>getOrCreateConversation\<close> matches a conversation \<open>c\<close> (the
  most recently created match) and the call returns the id of the message it stored:
  if \<open>c\<close> has more than one message and is closed, the message belongs to a conversation
  created by this call, whose id no conversation had before, \<open>c\<close>'s included; otherwise
  the message belongs to \<open>c\<close>, no conversation is created and \<open>c\<close> is open afterwards.
  In both cases the messages stored before are all kept, unchanged and in order.
\<close>

theorem getOrCreateConversation_reopen_threshold:
  assumes sel: "findSelector params = Some sel"
      and found: "find (conv_matches sel) (rev (conversations s)) = Some c"
      and run: "getOrCreateConversation G this params s = (Inr i, s')"
  shows "\<exists>ms m. messages s' = messages s @ ms @ [m] \<and> msg_id m = i \<and>
           (if (\<exists>n. messageCount c = Some n \<and> 1 < n) \<and> conv_status c = CLOSED
            then conversationId m \<noteq> conv_id c
               \<and> map conv_id (conversations s') = map conv_id (conversations s) @ [conversationId m]
               \<and> conversationId m \<notin> set (map conv_id (conversations s))
            else conversationId m = conv_id c
               \<and> map conv_id (conversations s') = map conv_id (conversations s)
               \<and> (\<forall>c' \<in> set (conversations s'). conv_id c' = conv_id c \<longrightarrow> conv_status c' = OPEN))"
proof -
  from run obtain conv s1 b s2 where
    r1: "getOrCreateConversation_conversation G this params s = (Inr conv, s1)" and
    r2: "restoreParentPost G this conv (p_senderId params) (msgFacebookData params) s1 = (Inr b, s2)" and
    r3: "createMessage G this conv (p_senderId params) (Some (p_content params))
           (p_attachments params) (msgFacebookData params) s2 = (Inr i, s')"
    unfolding getOrCreateConversation_def by (auto elim!: bind_io_Inr)
  from r3 obtain cv where cv: "conv = Some cv"
    by (cases conv) (auto simp: createMessage_def throw_io_def)
  have m1: "messages s1 = messages s" by (rule unchangedD [OF messages_conversation r1])
  from appendsD [OF appends_restoreParentPost r2] obtain ms where
    m2: "messages s2 = messages s1 @ ms" ..
  from createMessage_result [OF r3 [unfolded cv]] obtain m where
    m3: "messages s' = messages s2 @ [m]" "msg_id m = i" "conversationId m = conv_id cv"
    by blast
  have k: "conv_keys s' = conv_keys s1"
    using unchangedD [OF conv_keys_createMessage r3] unchangedD [OF conv_keys_restoreParentPost r2]
    by simp
  then have ids: "map conv_id (conversations s') = map conv_id (conversations s1)"
    and sts: "map (\<lambda>c. (conv_id c, conv_status c)) (conversations s')
                = map (\<lambda>c. (conv_id c, conv_status c)) (conversations s1)"
    by (simp_all add: conv_keys_ids conv_keys_status)
  from found have cin: "c \<in> set (conversations s)" by (auto dest: find_SomeD)
  have msgs: "messages s' = messages s @ ms @ [m]" using m1 m2 m3 by simp
  show ?thesis
  proof (cases "starts_new c")
    case True
    from conversation_created [OF sel found True r1] cv have
      new: "conv_id cv = fresh_id (map conv_id (conversations s))"
        "conversations s1 = conversations s @ [cv]"
      by auto
    have fresh: "conv_id cv \<notin> set (map conv_id (conversations s))"
      unfolding new(1) by (rule fresh_id_fresh)
    with cin have "conv_id cv \<noteq> conv_id c" by auto
    with True fresh msgs m3 ids new show ?thesis
      by (auto simp: starts_new_def)
  next
    case False
    from conversation_reopened [OF sel found False] r1 have
      re: "Conversations_reopen (conv_id c) s = (Inr conv, s1)" by simp
    then have cs1: "conversations s1
        = map (\<lambda>x. if conv_id x = conv_id c then x\<lparr>conv_status := OPEN\<rparr> else x) (conversations s)"
      and cvf: "find (\<lambda>x. conv_id x = conv_id c) (conversations s1) = Some cv"
      using cv by (auto simp: Conversations_reopen_def Let_def)
    from cvf have same: "conv_id cv = conv_id c" by (auto dest: find_SomeD)
    have ids1: "map conv_id (conversations s1) = map conv_id (conversations s)"
      unfolding cs1 by (induction "conversations s") auto
    have open1: "\<forall>p \<in> set (map (\<lambda>c. (conv_id c, conv_status c)) (conversations s1)).
                   fst p = conv_id c \<longrightarrow> snd p = OPEN"
      unfolding cs1 by auto
    have "\<forall>c' \<in> set (conversations s'). conv_id c' = conv_id c \<longrightarrow> conv_status c' = OPEN"
    proof (intro ballI impI)
      fix c' assume c': "c' \<in> set (conversations s')" and eq: "conv_id c' = conv_id c"
      from c' have "(conv_id c', conv_status c')
          \<in> (\<lambda>x. (conv_id x, conv_status x)) ` set (conversations s')"
        by (rule imageI)
      then have "(conv_id c', conv_status c')
          \<in> set (map (\<lambda>x. (conv_id x, conv_status x)) (conversations s1))"
        by (simp add: sts [symmetric])
      with open1 eq show "conv_status c' = OPEN" by auto
    qed
    with False same msgs m3 ids ids1 show ?thesis
      by (auto simp: starts_new_def)
  qed
qed

text \<open>A closed conversation with one message is reopened and gets the message; a closed
  conversation with two messages stays closed and a second conversation gets it.\<close>

theorem getOrCreateConversation_reopen_threshold_witness:
  "(\<exists>ms m. messages (snd (getOrCreateConversation ex_graph ex_this ex_params
                (ex_closed [ex_message 1 empty_facebookData])))
             = [ex_message 1 empty_facebookData] @ ms @ [m]
           \<and> msg_id m = 2 \<and> conversationId m = 1)
   \<and> map (\<lambda>c. (conv_id c, conv_status c))
        (conversations (snd (getOrCreateConversation ex_graph ex_this ex_params
           (ex_closed [ex_message 1 empty_facebookData]))))
      = [(1, OPEN)]
   \<and> (\<exists>ms m. messages (snd (getOrCreateConversation ex_graph ex_this ex_params
                (ex_closed [ex_message 1 empty_facebookData, ex_message 2 empty_facebookData])))
             = [ex_message 1 empty_facebookData, ex_message 2 empty_facebookData] @ ms @ [m]
           \<and> msg_id m = 3 \<and> conversationId m \<noteq> 1)
   \<and> map (\<lambda>m. (msg_id m, conversationId m))
        (messages (snd (getOrCreateConversation ex_graph ex_this ex_params
           (ex_closed [ex_message 1 empty_facebookData, ex_message 2 empty_facebookData]))))
      = [(1, 1), (2, 1), (3, 2)]
   \<and> map (\<lambda>c. (conv_id c, conv_status c))
        (conversations (snd (getOrCreateConversation ex_graph ex_this ex_params
           (ex_closed [ex_message 1 empty_facebookData, ex_message 2 empty_facebookData]))))
      = [(1, CLOSED), (2, NEW)]"
proof -
  let ?s1 = "ex_closed [ex_message 1 empty_facebookData]"
  let ?s2 = "ex_closed [ex_message 1 empty_facebookData, ex_message 2 empty_facebookData]"
  let ?sel = "messenger_selector ''100'' ''p1''"
  have sel: "findSelector ex_params = Some ?sel"
    by (simp add: ex2_defs ex_defs)
  have f1: "find (conv_matches ?sel) (rev (conversations ?s1)) = Some (hd (conversations ?s1))"
    by (simp add: ex2_defs ex_defs conv_matches_def messenger_selector_def)
  have f2: "find (conv_matches ?sel) (rev (conversations ?s2)) = Some (hd (conversations ?s2))"
    by (simp add: ex2_defs ex_defs conv_matches_def messenger_selector_def)
  have "fst (getOrCreateConversation ex_graph ex_this ex_params ?s1) = Inr 2"
    by (simp add: run_defs ex_defs ex2_defs)
  then have r1: "getOrCreateConversation ex_graph ex_this ex_params ?s1
      = (Inr 2, snd (getOrCreateConversation ex_graph ex_this ex_params ?s1))"
    by (rule run_result)
  have "fst (getOrCreateConversation ex_graph ex_this ex_params ?s2) = Inr 3"
    by (simp add: run_defs ex_defs ex2_defs)
  then have r2: "getOrCreateConversation ex_graph ex_this ex_params ?s2
      = (Inr 3, snd (getOrCreateConversation ex_graph ex_this ex_params ?s2))"
    by (rule run_result)
  have c1: "messageCount (hd (conversations ?s1)) = Some 1" "conv_id (hd (conversations ?s1)) = 1"
    "messages ?s1 = [ex_message 1 empty_facebookData]"
    by (simp_all add: ex2_defs ex_defs)
  have c2: "messageCount (hd (conversations ?s2)) = Some 2" "conv_id (hd (conversations ?s2)) = 1"
    "conv_status (hd (conversations ?s2)) = CLOSED"
    "messages ?s2 = [ex_message 1 empty_facebookData, ex_message 2 empty_facebookData]"
    by (simp_all add: ex2_defs ex_defs)
  from getOrCreateConversation_reopen_threshold [OF sel f1 r1]
  have a: "\<exists>ms m. messages (snd (getOrCreateConversation ex_graph ex_this ex_params ?s1))
             = [ex_message 1 empty_facebookData] @ ms @ [m]
           \<and> msg_id m = 2 \<and> conversationId m = 1"
    unfolding c1 by auto
  from getOrCreateConversation_reopen_threshold [OF sel f2 r2]
  have b: "\<exists>ms m. messages (snd (getOrCreateConversation ex_graph ex_this ex_params ?s2))
             = [ex_message 1 empty_facebookData, ex_message 2 empty_facebookData] @ ms @ [m]
           \<and> msg_id m = 3 \<and> conversationId m \<noteq> 1"
    unfolding c2 by auto
  have b': "map (\<lambda>m. (msg_id m, conversationId m))
        (messages (snd (getOrCreateConversation ex_graph ex_this ex_params ?s2)))
      = [(1, 1), (2, 1), (3, 2)]"
    by (simp add: run_defs ex_defs ex2_defs)
  have c: "map (\<lambda>c. (conv_id c, conv_status c))
        (conversations (snd (getOrCreateConversation ex_graph ex_this ex_params ?s1)))
      = [(1, OPEN)]"
    by (simp add: run_defs ex_defs ex2_defs)
  have d: "map (\<lambda>c. (conv_id c, conv_status c))
        (conversations (snd (getOrCreateConversation ex_graph ex_this ex_params ?s2)))
      = [(1, CLOSED), (2, NEW)]"
    by (simp add: run_defs ex_defs ex2_defs)
  from a c b b' d show ?thesis by (intro conjI)
qed

text \<open>
  C8. The selector of a messenger event matches exactly the conversations of kind
  MESSENGER whose sender and recipient are the two ids of the event, in either order; so
  the selectors of two events with sender and recipient swapped match the same
  conversations, and the lookup gives the same conversation for both. Delivered one after
  the other, neither being a duplicate and both stored: after the first, the lookup of
  either event finds one conversation, of kind MESSENGER and between the two ids; both
  messages belong to it; and after the second the store holds it, open, with the same
  \<open>facebookData\<close>.
\<close>

theorem messenger_swapped_same_conversation:
  assumes m1: "ev_message ev1 = Some msg1" and m2: "ev_message ev2 = Some msg2"
      and swap: "user_id (sender ev2) = recipient_id ev1" "recipient_id ev2 = user_id (sender ev1)"
      and new1: "\<not> (\<exists>m \<in> set (messages s0). messageId (facebookData m) = Some (mid msg1))"
      and new2: "\<not> (\<exists>m \<in> set (messages s1). messageId (facebookData m) = Some (mid msg2))"
      and e1: "getOrCreateConversationByMessenger G this ev1 s0 = (Inr (), s1)"
      and e2: "getOrCreateConversationByMessenger G this ev2 s1 = (Inr (), s2)"
  shows "(\<forall>a b c. conv_matches (messenger_selector a b) c
              = (conv_kind (conv_facebookData c) = MESSENGER
                 \<and> (conv_senderId (conv_facebookData c) = a
                      \<and> conv_recipientId (conv_facebookData c) = Some b
                    \<or> conv_senderId (conv_facebookData c) = b
                      \<and> conv_recipientId (conv_facebookData c) = Some a)))
       \<and> (\<forall>c. conv_matches (messenger_selector (user_id (sender ev2)) (recipient_id ev2)) c
              = conv_matches (messenger_selector (user_id (sender ev1)) (recipient_id ev1)) c)
       \<and> (\<forall>s. Conversations_findOne_latest
                 (messenger_selector (user_id (sender ev2)) (recipient_id ev2)) s
              = Conversations_findOne_latest
                 (messenger_selector (user_id (sender ev1)) (recipient_id ev1)) s)
       \<and> (\<exists>x y c c'. messages s1 = messages s0 @ [x] \<and> messages s2 = messages s1 @ [y]
             \<and> messageId (facebookData x) = Some (mid msg1)
             \<and> messageId (facebookData y) = Some (mid msg2)
             \<and> Conversations_findOne_latest
                 (messenger_selector (user_id (sender ev1)) (recipient_id ev1)) s1
                 = (Inr (Some c), s1)
             \<and> Conversations_findOne_latest
                 (messenger_selector (user_id (sender ev2)) (recipient_id ev2)) s1
                 = (Inr (Some c), s1)
             \<and> conv_kind (conv_facebookData c) = MESSENGER
             \<and> (conv_senderId (conv_facebookData c) = user_id (sender ev1)
                  \<and> conv_recipientId (conv_facebookData c) = Some (recipient_id ev1)
                \<or> conv_senderId (conv_facebookData c) = user_id (sender ev2)
                  \<and> conv_recipientId (conv_facebookData c) = Some (recipient_id ev2))
             \<and> conversationId x = conv_id c \<and> conversationId y = conv_id c
             \<and> c' \<in> set (conversations s2) \<and> conv_id c' = conv_id c
             \<and> conv_status c' = OPEN
             \<and> conv_facebookData c' = conv_facebookData c)"
proof -
  have a: "conv_matches (messenger_selector (user_id (sender ev2)) (recipient_id ev2)) c
         = conv_matches (messenger_selector (user_id (sender ev1)) (recipient_id ev1)) c" for c
    unfolding swap by (rule messenger_selector_swap)
  then have "conv_matches (messenger_selector (user_id (sender ev2)) (recipient_id ev2))
         = conv_matches (messenger_selector (user_id (sender ev1)) (recipient_id ev1))"
    by (rule ext)
  then have b: "Conversations_findOne_latest
                 (messenger_selector (user_id (sender ev2)) (recipient_id ev2)) s
              = Conversations_findOne_latest
                 (messenger_selector (user_id (sender ev1)) (recipient_id ev1)) s" for s
    by (simp add: Conversations_findOne_latest_def)
  from messenger_continuity [OF m1 m2 swap new1 new2 e1 e2] obtain x y c c' where
    c: "messages s1 = messages s0 @ [x]" "messages s2 = messages s1 @ [y]"
       "messageId (facebookData x) = Some (mid msg1)"
       "messageId (facebookData y) = Some (mid msg2)"
       "find (conv_matches (messenger_selector (user_id (sender ev1)) (recipient_id ev1)))
                (rev (conversations s1)) = Some c"
       "find (conv_matches (messenger_selector (user_id (sender ev2)) (recipient_id ev2)))
                (rev (conversations s1)) = Some c"
       "conversationId x = conv_id c" "conversationId y = conv_id c"
       "c' \<in> set (conversations s2)" "conv_id c' = conv_id c" "conv_status c' = OPEN"
       "conv_facebookData c' = conv_facebookData c"
    by blast
  from c(5) have "conv_matches (messenger_selector (user_id (sender ev1)) (recipient_id ev1)) c"
    by (auto dest: find_SomeD)
  then have d: "conv_kind (conv_facebookData c) = MESSENGER"
     "conv_senderId (conv_facebookData c) = user_id (sender ev1)
                  \<and> conv_recipientId (conv_facebookData c) = Some (recipient_id ev1)
                \<or> conv_senderId (conv_facebookData c) = user_id (sender ev2)
                  \<and> conv_recipientId (conv_facebookData c) = Some (recipient_id ev2)"
    unfolding swap by (simp_all add: messenger_selector_parties)
  have f: "Conversations_findOne_latest
                 (messenger_selector (user_id (sender ev1)) (recipient_id ev1)) s1
                 = (Inr (Some c), s1)"
     "Conversations_findOne_latest
                 (messenger_selector (user_id (sender ev2)) (recipient_id ev2)) s1
                 = (Inr (Some c), s1)"
    using c(5,6) by (simp_all add: Conversations_findOne_latest_def)
  have p: "\<forall>a b c. conv_matches (messenger_selector a b) c
              = (conv_kind (conv_facebookData c) = MESSENGER
                 \<and> (conv_senderId (conv_facebookData c) = a
                      \<and> conv_recipientId (conv_facebookData c) = Some b
                    \<or> conv_senderId (conv_facebookData c) = b
                      \<and> conv_recipientId (conv_facebookData c) = Some a))"
    by (simp add: messenger_selector_parties)
  from c d f have "\<exists>x y c c'. messages s1 = messages s0 @ [x] \<and> messages s2 = messages s1 @ [y]
             \<and> messageId (facebookData x) = Some (mid msg1)
             \<and> messageId (facebookData y) = Some (mid msg2)
             \<and> Conversations_findOne_latest
                 (messenger_selector (user_id (sender ev1)) (recipient_id ev1)) s1
                 = (Inr (Some c), s1)
             \<and> Conversations_findOne_latest
                 (messenger_selector (user_id (sender ev2)) (recipient_id ev2)) s1
                 = (Inr (Some c), s1)
             \<and> conv_kind (conv_facebookData c) = MESSENGER
             \<and> (conv_senderId (conv_facebookData c) = user_id (sender ev1)
                  \<and> conv_recipientId (conv_facebookData c) = Some (recipient_id ev1)
                \<or> conv_senderId (conv_facebookData c) = user_id (sender ev2)
                  \<and> conv_recipientId (conv_facebookData c) = Some (recipient_id ev2))
             \<and> conversationId x = conv_id c \<and> conversationId y = conv_id c
             \<and> c' \<in> set (conversations s2) \<and> conv_id c' = conv_id c
             \<and> conv_status c' = OPEN
             \<and> conv_facebookData c' = conv_facebookData c"
    by (intro exI [of _ x] exI [of _ y] exI [of _ c] exI [of _ c'] conjI)
  with p a b show ?thesis by (intro conjI allI) auto
qed

theorem messenger_swapped_same_conversation_witness:
  "\<exists>x y c c'. messages ex_after_message = [x] \<and> messages ex_after_echo = [x, y]
         \<and> messageId (facebookData x) = Some ''m1''
         \<and> messageId (facebookData y) = Some ''m2''
         \<and> Conversations_findOne_latest (messenger_selector ''100'' ''p1'') ex_after_message
             = (Inr (Some c), ex_after_message)
         \<and> Conversations_findOne_latest (messenger_selector ''p1'' ''100'') ex_after_message
             = (Inr (Some c), ex_after_message)
         \<and> conv_kind (conv_facebookData c) = MESSENGER
         \<and> conv_senderId (conv_facebookData c) = ''100''
         \<and> conv_recipientId (conv_facebookData c) = Some ''p1''
         \<and> conversationId x = conv_id c \<and> conversationId y = conv_id c
         \<and> c' \<in> set (conversations ex_after_echo) \<and> conv_id c' = conv_id c
         \<and> conv_status c' = OPEN
         \<and> conv_facebookData c' = conv_facebookData c"
proof -
  have m1: "ev_message ex_event = Some \<lparr>mid = ''m1'', msg_text = Some ''hi'', ev_attachments = None\<rparr>"
    by (simp add: ex_defs)
  have m2: "ev_message ex_echo = Some \<lparr>mid = ''m2'', msg_text = Some ''hello'', ev_attachments = None\<rparr>"
    by (simp add: ex_echo_def)
  have swap: "user_id (sender ex_echo) = recipient_id ex_event"
      "recipient_id ex_echo = user_id (sender ex_event)"
    by (simp_all add: ex_echo_def ex_defs)
  have ids: "user_id (sender ex_event) = ''100''" "recipient_id ex_event = ''p1''"
      "user_id (sender ex_echo) = ''p1''" "recipient_id ex_echo = ''100''"
    by (simp_all add: ex_echo_def ex_defs)
  have e: "messages ex_page_state = []"
    by (simp add: ex_page_state_def ex_defs)
  then have new1: "\<not> (\<exists>m \<in> set (messages ex_page_state). messageId (facebookData m)
      = Some (mid \<lparr>mid = ''m1'', msg_text = Some ''hi'', ev_attachments = None\<rparr>))"
    by simp
  have "map (\<lambda>m. messageId (facebookData m)) (messages ex_after_message) = [Some ''m1'']"
    by (simp add: run_defs ex_defs ex2_defs)
  then have new2: "\<not> (\<exists>m \<in> set (messages ex_after_message). messageId (facebookData m)
      = Some (mid \<lparr>mid = ''m2'', msg_text = Some ''hello'', ev_attachments = None\<rparr>))"
    by auto
  have "fst (getOrCreateConversationByMessenger ex_graph ex_this ex_event ex_page_state) = Inr ()"
    by (simp add: run_defs ex_defs ex_page_state_def)
  then have e1: "getOrCreateConversationByMessenger ex_graph ex_this ex_event ex_page_state
      = (Inr (), ex_after_message)"
    unfolding ex_after_message_def by (rule run_result)
  have "fst (getOrCreateConversationByMessenger ex_graph ex_this ex_echo ex_after_message) = Inr ()"
    by (simp add: run_defs ex_defs ex2_defs)
  then have e2: "getOrCreateConversationByMessenger ex_graph ex_this ex_echo ex_after_message
      = (Inr (), ex_after_echo)"
    unfolding ex_after_echo_def by (rule run_result)
  have sender: "map (\<lambda>c. conv_senderId (conv_facebookData c)) (conversations ex_after_message)
      = [''100'']"
    by (simp add: run_defs ex_defs ex2_defs)
  from messenger_swapped_same_conversation [OF m1 m2 swap new1 new2 e1 e2]
  obtain x y c c' where
    t: "messages ex_after_message = messages ex_page_state @ [x]"
       "messages ex_after_echo = messages ex_after_message @ [y]"
       "messageId (facebookData x) = Some ''m1''"
       "messageId (facebookData y) = Some ''m2''"
       "Conversations_findOne_latest (messenger_selector ''100'' ''p1'') ex_after_message
             = (Inr (Some c), ex_after_message)"
       "Conversations_findOne_latest (messenger_selector ''p1'' ''100'') ex_after_message
             = (Inr (Some c), ex_after_message)"
       "conv_kind (conv_facebookData c) = MESSENGER"
       "conv_senderId (conv_facebookData c) = ''100''
          \<and> conv_recipientId (conv_facebookData c) = Some ''p1''
        \<or> conv_senderId (conv_facebookData c) = ''p1''
          \<and> conv_recipientId (conv_facebookData c) = Some ''100''"
       "conversationId x = conv_id c" "conversationId y = conv_id c"
       "c' \<in> set (conversations ex_after_echo)" "conv_id c' = conv_id c"
       "conv_status c' = OPEN" "conv_facebookData c' = conv_facebookData c"
    unfolding ids by auto
  from t(5) have "c \<in> set (conversations ex_after_message)"
    by (auto simp: Conversations_findOne_latest_def dest: find_SomeD)
  then have "conv_senderId (conv_facebookData c)
      \<in> set (map (\<lambda>c. conv_senderId (conv_facebookData c)) (conversations ex_after_message))"
    by simp
  with sender have "conv_senderId (conv_facebookData c) = ''100''" by simp
  with t(8) have p: "conv_senderId (conv_facebookData c) = ''100''"
      "conv_recipientId (conv_facebookData c) = Some ''p1''"
    by simp_all
  from t(1,2) e have ms: "messages ex_after_message = [x]" "messages ex_after_echo = [x, y]"
    by simp_all
  from ms t(3-7) p t(9-14) show ?thesis
    by (intro exI [of _ x] exI [of _ y] exI [of _ c] exI [of _ c'] conjI)
qed

section \<open>Duplicate deliveries\<close>

text \<open>
  What holds of a second delivery. After a messenger event was processed, processing the
  same event again changes nothing: the message with its \<open>mid\<close> is found and the event
  is skipped. The first processing was itself such a skip, or it added exactly one
  message, which carries the \<open>mid\<close>. For a comment-add event of the feed whose value has
  no \<open>id\<close> field of its own, processing it again changes nothing either, and the first
  processing was a skip or added messages the last of which carries the comment id.
\<close>

theorem duplicate_delivery_skipped:
  assumes msg: "ev_message ev = Some msg"
      and run1: "getOrCreateConversationByMessenger G this ev s = (Inr (), s1)"
      and v: "item v = Some ''comment''" "verb v = Some ''add''"
        "comment_id v = Some c" "c \<noteq> []"
      and noid: "\<not> truthy (id' v)"
      and run2: "getOrCreateConversationByFeed G this v t = (Inr (), t1)"
  shows "getOrCreateConversationByMessenger G' this ev s1 = (Inr (), s1)
       \<and> (if \<exists>m \<in> set (messages s). messageId (facebookData m) = Some (mid msg)
          then s1 = s
          else \<exists>m. messages s1 = messages s @ [m]
                 \<and> messageId (facebookData m) = Some (mid msg))
       \<and> getOrCreateConversationByFeed G' this v t1 = (Inr (), t1)
       \<and> (if \<exists>m \<in> set (messages t). commentId (facebookData m) = Some c
          then t1 = t
          else \<exists>ms m. messages t1 = messages t @ ms @ [m]
                 \<and> commentId (facebookData m) = Some c)"
proof -
  note a = messenger_first_delivery [OF msg run1]
  then have "\<exists>m \<in> set (messages s1). messageId (facebookData m) = Some (mid msg)"
    by (auto split: if_splits)
  then have "find (msg_matches [MessageIdIs (mid msg)]) (messages s1) \<noteq> None"
    by (simp add: find_msg_None)
  then obtain m where "find (msg_matches [MessageIdIs (mid msg)]) (messages s1) = Some m"
    by auto
  then have b: "getOrCreateConversationByMessenger G' this ev s1 = (Inr (), s1)"
    by (rule ByMessenger_saved [OF msg])
  note c = feed_first_delivery [OF v noid run2]
  then have "\<exists>m \<in> set (messages t1). commentId (facebookData m) = Some c"
    by (auto split: if_splits)
  then have "find (msg_matches [CommentIdIs c]) (messages t1) \<noteq> None"
    by (simp add: find_msg_None)
  then obtain m' where f: "find (msg_matches [CommentIdIs c]) (messages t1) = Some m'"
    by auto
  from run2 obtain ifd where ifd: "integration_facebookData (integration this) = Some ifd"
    by (rule ByFeed_facebookData)
  have d: "getOrCreateConversationByFeed G' this v t1 = (Inr (), t1)"
    by (rule ByFeed_saved [OF ifd v f])
  from b a d c show ?thesis by (intro conjI)
qed

theorem duplicate_delivery_skipped_example:
  "getOrCreateConversationByMessenger ex_graph ex_this ex_event ex_after_message
     = (Inr (), ex_after_message)
   \<and> (\<exists>m. messages ex_after_message = [m] \<and> messageId (facebookData m) = Some ''m1'')
   \<and> getOrCreateConversationByFeed ex_graph ex_this ex_reply ex_after_reply
     = (Inr (), ex_after_reply)
   \<and> (\<exists>ms m. messages ex_after_reply = ms @ [m] \<and> commentId (facebookData m) = Some ''c2'')"
proof -
  have msg: "ev_message ex_event = Some \<lparr>mid = ''m1'', msg_text = Some ''hi'', ev_attachments = None\<rparr>"
    by (simp add: ex_defs)
  have "fst (getOrCreateConversationByMessenger ex_graph ex_this ex_event ex_page_state) = Inr ()"
    by (simp add: run_defs ex_defs ex_page_state_def)
  then have run1: "getOrCreateConversationByMessenger ex_graph ex_this ex_event ex_page_state
      = (Inr (), ex_after_message)"
    unfolding ex_after_message_def by (rule run_result)
  have v: "item ex_reply = Some ''comment''" "verb ex_reply = Some ''add''"
      "comment_id ex_reply = Some ''c2''" "''c2'' \<noteq> []"
    by (simp_all add: ex_reply_def ex_defs)
  have noid: "\<not> truthy (id' ex_reply)"
    by (simp add: ex_reply_def ex_defs truthy_def)
  have "fst (getOrCreateConversationByFeed ex_graph ex_this ex_reply ex_page_state) = Inr ()"
    by (simp add: run_defs ex_defs ex_page_state_def ex_reply_def)
  then have run2: "getOrCreateConversationByFeed ex_graph ex_this ex_reply ex_page_state
      = (Inr (), ex_after_reply)"
    unfolding ex_after_reply_def by (rule run_result)
  have e: "messages ex_page_state = []"
    by (simp add: ex_page_state_def ex_defs)
  from duplicate_delivery_skipped [OF msg run1 v noid run2, of ex_graph]
  show ?thesis by (simp add: e)
qed

text \<open>
  C3. The claim: a second delivery of the same event persists no additional message, so
  that exactly one persisted message exists per platform event id. The second delivery
  is skipped, as shown above, but the first delivery of a reply stores it twice.
  Evaluated on an empty store and the reply \<open>c2\<close> to the comment \<open>c1\<close>, where the Graph
  API lists \<open>c2\<close> among the comments of \<open>c1\<close>: \<open>restoreParentPost\<close> stores the post, then
  \<open>c2\<close> and \<open>c1\<close> from the thread of \<open>c1\<close>, and \<open>createMessage\<close> stores \<open>c2\<close> again as
  the event's own message. The second delivery changes nothing, and two messages with
  the comment id \<open>c2\<close> remain.
\<close>

theorem reply_delivery_stores_comment_twice:
  "messages ex_page_state = []
   \<and> map (\<lambda>m. commentId (facebookData m)) (messages ex_after_reply)
     = [None, Some ''c2'', Some ''c1'', Some ''c2'']
   \<and> map (\<lambda>m. commentId (facebookData m))
       (messages (snd (getOrCreateConversationByFeed ex_graph ex_this ex_reply ex_after_reply)))
     = [None, Some ''c2'', Some ''c1'', Some ''c2'']"
  by (simp add: run_defs ex_defs ex2_defs)

section \<open>Restoring the parent post\<close>

text \<open>When the conversation has a message flagged \<open>isPost\<close> with the \<open>postId\<close> asked
  for, \<open>restoreParentPost\<close> returns \<open>false\<close> and changes nothing.\<close>

lemma restoreParentPost_post_recorded:
  assumes "postId fd = Some p" and "p \<noteq> []" and "msg_item fd = Some ''comment''"
      and "find (msg_matches [ConversationIdIs (conv_id c), IsPostIs True, PostIdIs p])
             (messages s) = Some m"
  shows "restoreParentPost G this (Some c) u fd s = (Inr False, s)"
  using assms
  by (simp add: restoreParentPost_def bind_io_findOne return_io_def)

text \<open>A failed \<open>createMessage\<close> stores no message; and \<open>createMessageFromComments\<close>
  stores no comment a second time: for a comment id the conversation has recorded, no
  message is added; for one it has not recorded, one message at most.\<close>

lemma createMessage_failed:
  assumes "createMessage G this conv u cont atts fd s = (Inl e, s')"
  shows "messages s' = messages s"
proof (cases conv)
  case None
  with assms show ?thesis by (simp add: createMessage_def throw_io_def)
next
  case (Some c)
  obtain r1 s1 where 1: "getPageAccessToken G this s = (r1, s1)" by (cases "getPageAccessToken G this s")
  have m1: "messages s1 = messages s" by (rule unchangedD [OF messages_getPageAccessToken 1])
  show ?thesis
  proof (cases r1)
    case (Inl e1)
    with assms Some 1 m1 show ?thesis by (simp add: createMessage_def bind_io_def)
  next
    case (Inr t)
    obtain r2 s2 where 2: "getOrCreateCustomer G u (integration_id (integration this)) t s1 = (r2, s2)"
      by (cases "getOrCreateCustomer G u (integration_id (integration this)) t s1")
    have m2: "messages s2 = messages s1" by (rule unchangedD [OF messages_getOrCreateCustomer 2])
    show ?thesis
    proof (cases r2)
      case (Inl e2)
      with assms Some 1 Inr 2 m1 m2 show ?thesis by (simp add: createMessage_def bind_io_def)
    next
      case (Inr cu)
      with assms Some 1 \<open>r1 = Inr t\<close> 2 show ?thesis
        by (simp add: createMessage_def bind_io_def ConversationMessages_createMessage_def
            Conversations_updateOne_content_def publishClientMessage_def publishMessage_def
            return_io_def Let_def)
    qed
  qed
qed

lemma find_comment_None:
  "(find (msg_matches [CommentIdIs k, ConversationIdIs cv]) (messages s) = None)
     = (recorded cv k s = 0)"
  by (auto simp: find_None_iff msg_matches_def recorded_def filter_empty_conv)

lemma createMessageFromComments_step:
  assumes "id' comment = Some cid" and "cid \<noteq> []"
  shows "createMessageFromComments G this (Some c) u (comment # rest) s =
     (case find (msg_matches [CommentIdIs cid, ConversationIdIs (conv_id c)]) (messages s) of
        Some prev \<Rightarrow> createMessageFromComments G this (Some c) u rest s
      | None \<Rightarrow>
          bind_io (createMessage G this (Some c) u
                     (js_or (message comment) (attachment comment)) None
                     ((generateCommentParams (comment\<lparr>item := Some ''comment''\<rparr>))
                        \<lparr>senderId := Some (user_id (from_user comment)),
                         senderName := user_name (from_user comment)\<rparr>))
            (\<lambda>_. createMessageFromComments G this (Some c) u rest) s)"
  using assms
  by (simp add: bind_io_findOne bind_io_assoc bind_io_return split: option.splits)

lemma createMessageFromComments_no_duplicate:
  "recorded (conv_id c) k (snd (createMessageFromComments G this (Some c) u comments s))
     \<le> max 1 (recorded (conv_id c) k s)"
proof (induction comments arbitrary: s)
  case Nil
  show ?case by (simp add: return_io_def)
next
  case (Cons comment rest)
  show ?case
  proof (cases "id' comment")
    case None
    then show ?thesis by (simp add: return_io_def)
  next
    case (Some cid)
    show ?thesis
    proof (cases "cid = []")
      case True
      with Some show ?thesis by (simp add: return_io_def)
    next
      case False
      let ?fd = "(generateCommentParams (comment\<lparr>item := Some ''comment''\<rparr>))
                   \<lparr>senderId := Some (user_id (from_user comment)),
                    senderName := user_name (from_user comment)\<rparr>"
      show ?thesis
      proof (cases "find (msg_matches [CommentIdIs cid, ConversationIdIs (conv_id c)]) (messages s)")
        case (Some prev)
        with createMessageFromComments_step [OF \<open>id' comment = Some cid\<close> False] have
          "createMessageFromComments G this (Some c) u (comment # rest) s
             = createMessageFromComments G this (Some c) u rest s"
          by simp
        with Cons.IH [of s] show ?thesis by simp
      next
        case None
        then have zero: "recorded (conv_id c) cid s = 0" by (simp add: find_comment_None)
        obtain r s1 where cm: "createMessage G this (Some c) u
            (js_or (message comment) (attachment comment)) None ?fd s = (r, s1)"
          by (cases "createMessage G this (Some c) u
            (js_or (message comment) (attachment comment)) None ?fd s")
        have cid: "commentId ?fd = Some cid"
          using \<open>id' comment = Some cid\<close> False
          by (simp add: generateCommentParams_def Let_def truthy_def split: option.splits)
        show ?thesis
        proof (cases r)
          case (Inl e)
          with cm None createMessageFromComments_step [OF \<open>id' comment = Some cid\<close> False] have
            "createMessageFromComments G this (Some c) u (comment # rest) s = (Inl e, s1)"
            by (simp add: bind_io_def)
          moreover from cm Inl have "messages s1 = messages s"
            by (auto dest: createMessage_failed)
          ultimately show ?thesis by (simp add: recorded_def)
        next
          case (Inr i)
          with cm None createMessageFromComments_step [OF \<open>id' comment = Some cid\<close> False] have run:
            "createMessageFromComments G this (Some c) u (comment # rest) s
               = createMessageFromComments G this (Some c) u rest s1"
            by (simp add: bind_io_def)
          from cm Inr createMessage_result [of G this c u _ None ?fd s i s1] obtain m where
            m: "messages s1 = messages s @ [m]" "conversationId m = conv_id c"
              "facebookData m = ?fd"
            by auto
          have "recorded (conv_id c) k s1 \<le> max 1 (recorded (conv_id c) k s)"
          proof (cases "k = cid")
            case True
            with m cid zero show ?thesis by (simp add: recorded_def)
          next
            case False
            with m cid show ?thesis by (simp add: recorded_def)
          qed
          with Cons.IH [of s1] run show ?thesis by simp
        qed
      qed
    qed
  qed
qed

text \<open>
  C4. The claim: a second \<open>restoreParentPost\<close> for the same post and comment does not
  duplicate the root post. The post is looked up under the \<open>postId\<close> of the message
  data and stored under the \<open>id\<close> the Graph API returns. Evaluated where the Graph API
  returns the post \<open>w1\<close> under the id \<open>g1\<close>: both calls return \<open>true\<close>, and the
  conversation, empty before, has the root post twice. Where the Graph API returns the
  post under the id asked for, the second call returns \<open>false\<close>.
\<close>

theorem restoreParentPost_twice_duplicates_post:
  "messages ex_thread = []
   \<and> fst (restoreParentPost ex_graph ex_this (Some ex_feed_conversation) ''100'' ex_comment_data
          ex_thread) = Inr True
   \<and> fst (restoreParentPost ex_graph ex_this (Some ex_feed_conversation) ''100'' ex_comment_data
          (snd (restoreParentPost ex_graph ex_this (Some ex_feed_conversation) ''100''
                  ex_comment_data ex_thread))) = Inr True
   \<and> map (\<lambda>m. (conversationId m, isPost (facebookData m), postId (facebookData m)))
        (messages
          (snd (restoreParentPost ex_graph ex_this (Some ex_feed_conversation) ''100''
                  ex_comment_data
             (snd (restoreParentPost ex_graph ex_this (Some ex_feed_conversation) ''100''
                     ex_comment_data ex_thread)))))
     = [(1, True, Some ''g1''), (1, True, Some ''g1'')]
   \<and> fst (restoreParentPost
          (ex_graph\<lparr>getPostInfo := (\<lambda>_ p _. Inr (blank_object\<lparr>id' := Some p\<rparr>))\<rparr>) ex_this
          (Some ex_feed_conversation) ''100'' ex_comment_data
          (snd (restoreParentPost
                  (ex_graph\<lparr>getPostInfo := (\<lambda>_ p _. Inr (blank_object\<lparr>id' := Some p\<rparr>))\<rparr>)
                  ex_this (Some ex_feed_conversation) ''100'' ex_comment_data ex_thread)))
     = Inr False"
  by (simp add: run_defs ex_defs ex2_defs)

end
